theory Spec2Isabelle
  imports Main "HOL-Library.Word"
begin

section \<open>make-gif.py: frame PNGs combined into animated GIFs\<close>

text \<open>
  A shallow embedding of \<^verbatim>\<open>scripts/make-gif.py\<close>. Module-level constants become
  constants, \<^verbatim>\<open>normalize\<close> becomes a function on lists of images, \<^verbatim>\<open>load_frames\<close>,
  \<^verbatim>\<open>save_gif\<close> and the module's driver become functions over an explicit world (files,
  standard output), and every exception the script can raise is a value of \<open>exc\<close>.
\<close>

subsection \<open>Exceptions\<close>

text \<open>
  \<open>SystemExit n\<close> is \<^verbatim>\<open>sys.exit(n)\<close>. The others are the exceptions the interpreter and
  the imaging library raise at the calls the script makes; none is caught by the script.
\<close>

datatype exc =
    SystemExit int
  | ZeroDivisionError
  | ValueError
  | IndexError
  | FileNotFoundError
  | UnidentifiedImageError
  | OSError

subsection \<open>The duration tables (lines 10 to 38)\<close>

definition SPEED :: int where
  "SPEED = 3"

definition base_durations :: "int list" where
  "base_durations =
     [2500, 1500, 2000, 3000, 2500, 1200, 1200, 3500, 2000,
      1500, 2500, 2000, 3000, 1200, 1200, 2000, 2000, 3500]"

text \<open>
  Line 34, \<^verbatim>\<open>[max(50, d // SPEED) for d in base_durations]\<close>, with the speed and the
  table as parameters. Python's \<^verbatim>\<open>//\<close> on integers is floor division, as \<open>div\<close> on
  \<open>int\<close> is; it raises ZeroDivisionError for a zero divisor, which happens at the
  first element of the comprehension (never for an empty table).
\<close>

definition derive_durations :: "int \<Rightarrow> int list \<Rightarrow> exc + int list" where
  "derive_durations speed base =
     (if speed = 0 \<and> base \<noteq> [] then Inl ZeroDivisionError
      else Inr (map (\<lambda>d. max 50 (d div speed)) base))"

text \<open>The module-level \<^verbatim>\<open>durations\<close>: line 34 at the configured constants.\<close>

definition durations :: "int list" where
  "durations = map (\<lambda>d. max 50 (d div SPEED)) base_durations"

text \<open>\<^verbatim>\<open>range(a, b)\<close> as a list, and Python's list indexing (negative indices count
  from the end; out of range raises IndexError).\<close>

definition py_range :: "int \<Rightarrow> int \<Rightarrow> int list" where
  "py_range a b = [a..b - 1]"

definition getitem :: "'a list \<Rightarrow> int \<Rightarrow> exc + 'a" where
  "getitem xs i =
     (if 0 \<le> i \<and> i < int (length xs) then Inr (xs ! nat i)
      else if i < 0 \<and> - int (length xs) \<le> i then Inr (xs ! nat (int (length xs) + i))
      else Inl IndexError)"

text \<open>A list comprehension whose body can raise: the first exception ends it.\<close>

fun comprehension :: "('a \<Rightarrow> exc + 'b) \<Rightarrow> 'a list \<Rightarrow> exc + 'b list" where
  "comprehension f [] = Inr []"
| "comprehension f (x # xs) =
     (case f x of
        Inl e \<Rightarrow> Inl e
      | Inr y \<Rightarrow> (case comprehension f xs of Inl e \<Rightarrow> Inl e | Inr ys \<Rightarrow> Inr (y # ys)))"

definition WORKTREE_FRAMES :: "int list" where
  "WORKTREE_FRAMES = py_range 9 14"

text \<open>Line 38, \<^verbatim>\<open>[durations[i - 1] for i in WORKTREE_FRAMES]\<close>.\<close>

definition worktree_durations :: "exc + int list" where
  "worktree_durations = comprehension (\<lambda>i. getitem durations (i - 1)) WORKTREE_FRAMES"

subsection \<open>Images (the part of the imaging library the script uses)\<close>

text \<open>
  The script builds on the imaging library's \<^verbatim>\<open>Image\<close> objects. An image has a size and
  a raster in one of the two modes the script produces: RGBA (what \<^verbatim>\<open>load_frames\<close>
  converts every frame to) and RGB (what \<^verbatim>\<open>normalize\<close> returns). A raster gives the
  channel bytes at column \<open>x\<close> and row \<open>y\<close>; only positions inside the size are part of
  the image, and \<open>getpixel\<close> raises IndexError elsewhere, as the library does.
\<close>

type_synonym byte = "8 word"

datatype mode = RGB | RGBA

datatype raster =
    RGB_raster "nat \<Rightarrow> nat \<Rightarrow> byte \<times> byte \<times> byte"
  | RGBA_raster "nat \<Rightarrow> nat \<Rightarrow> byte \<times> byte \<times> byte \<times> byte"

record image =
  width :: nat
  height :: nat
  raster :: raster

definition mode :: "image \<Rightarrow> mode" where
  "mode img = (case raster img of RGB_raster _ \<Rightarrow> RGB | RGBA_raster _ \<Rightarrow> RGBA)"

text \<open>The tuple \<^verbatim>\<open>getpixel\<close> returns: three bands for RGB, four for RGBA.\<close>

datatype pixel = RGB_pixel byte byte byte | RGBA_pixel byte byte byte byte

definition getpixel :: "image \<Rightarrow> nat \<times> nat \<Rightarrow> exc + pixel" where
  "getpixel img xy =
     (case xy of (x, y) \<Rightarrow>
        if x < width img \<and> y < height img then
          Inr (case raster img of
                 RGB_raster f \<Rightarrow> (case f x y of (r, g, b) \<Rightarrow> RGB_pixel r g b)
               | RGBA_raster f \<Rightarrow> (case f x y of (r, g, b, a) \<Rightarrow> RGBA_pixel r g b a))
        else Inl IndexError)"

text \<open>The colour bands of a pixel value, without its alpha band.\<close>

fun drop_alpha :: "pixel \<Rightarrow> pixel" where
  "drop_alpha (RGB_pixel r g b) = RGB_pixel r g b"
| "drop_alpha (RGBA_pixel r g b a) = RGB_pixel r g b"

text \<open>
  Mode conversion between RGB and RGBA, as \<^verbatim>\<open>Image.convert\<close> does it: to RGB the alpha
  band is dropped and the colour bands are kept as stored (no blending, no premultiplying);
  to RGBA an alpha band of 255 is added; conversion to the image's own mode copies it.
\<close>

fun rgb_bands :: "raster \<Rightarrow> nat \<Rightarrow> nat \<Rightarrow> byte \<times> byte \<times> byte" where
  "rgb_bands (RGB_raster f) x y = f x y"
| "rgb_bands (RGBA_raster f) x y = (case f x y of (r, g, b, a) \<Rightarrow> (r, g, b))"

fun rgba_bands :: "raster \<Rightarrow> nat \<Rightarrow> nat \<Rightarrow> byte \<times> byte \<times> byte \<times> byte" where
  "rgba_bands (RGBA_raster f) x y = f x y"
| "rgba_bands (RGB_raster f) x y = (case f x y of (r, g, b) \<Rightarrow> (r, g, b, 255))"

fun convert :: "image \<Rightarrow> mode \<Rightarrow> image" where
  "convert img RGB = img\<lparr>raster := RGB_raster (rgb_bands (raster img))\<rparr>"
| "convert img RGBA = img\<lparr>raster := RGBA_raster (rgba_bands (raster img))\<rparr>"

text \<open>\<^verbatim>\<open>Image.new(mode, size, color)\<close> with a three-band colour: every pixel is that
  colour (opaque in mode RGBA).\<close>

fun Image_new :: "mode \<Rightarrow> nat \<times> nat \<Rightarrow> byte \<times> byte \<times> byte \<Rightarrow> image" where
  "Image_new RGB (w, h) (r, g, b) =
     \<lparr>width = w, height = h, raster = RGB_raster (\<lambda>x y. (r, g, b))\<rparr>"
| "Image_new RGBA (w, h) (r, g, b) =
     \<lparr>width = w, height = h, raster = RGBA_raster (\<lambda>x y. (r, g, b, 255))\<rparr>"

text \<open>
  \<^verbatim>\<open>canvas.paste(img, (x0, y0))\<close>, without a mask: the pasted image is converted to the
  canvas's mode and its pixels replace the canvas's in the box of the image's size at
  \<open>(x0, y0)\<close>; what falls outside the canvas is clipped. The method updates the canvas
  in place; the canvas of \<^verbatim>\<open>normalize\<close> is fresh and not shared, so the model returns
  the updated canvas.
\<close>

definition in_box :: "nat \<times> nat \<Rightarrow> image \<Rightarrow> nat \<Rightarrow> nat \<Rightarrow> bool" where
  "in_box xy img x y =
     (case xy of (x0, y0) \<Rightarrow>
        x0 \<le> x \<and> x < x0 + width img \<and> y0 \<le> y \<and> y < y0 + height img)"

definition paste :: "image \<Rightarrow> image \<Rightarrow> nat \<times> nat \<Rightarrow> image" where
  "paste canvas img xy =
     canvas\<lparr>raster :=
       (case raster canvas of
          RGB_raster c \<Rightarrow>
            RGB_raster (\<lambda>x y. if in_box xy img x y
                               then rgb_bands (raster img) (x - fst xy) (y - snd xy)
                               else c x y)
        | RGBA_raster c \<Rightarrow>
            RGBA_raster (\<lambda>x y. if in_box xy img x y
                                then rgba_bands (raster img) (x - fst xy) (y - snd xy)
                                else c x y))\<rparr>"

subsection \<open>normalize (lines 52 to 63)\<close>

text \<open>The function \<^verbatim>\<open>normalize\<close> is \<open>normalize_images\<close> here: the library has a
  constant \<open>normalize\<close> of its own.\<close>

text \<open>\<^verbatim>\<open>max(...)\<close> over a generator: ValueError when it yields nothing.\<close>

definition py_max :: "nat list \<Rightarrow> exc + nat" where
  "py_max xs = (case xs of [] \<Rightarrow> Inl ValueError | x # rest \<Rightarrow> Inr (fold max rest x))"

text \<open>The body of the loop of lines 56 to 62, for one image.\<close>

definition normalize_one :: "nat \<Rightarrow> nat \<Rightarrow> image \<Rightarrow> image" where
  "normalize_one max_w max_h img =
     (if width img = max_w \<and> height img = max_h then convert img RGB
      else paste (Image_new RGB (max_w, max_h) (30, 30, 30)) img (0, 0))"

text \<open>The loop, with \<open>result\<close> as its accumulator.\<close>

fun normalize_loop :: "nat \<Rightarrow> nat \<Rightarrow> image list \<Rightarrow> image list \<Rightarrow> image list" where
  "normalize_loop max_w max_h [] result = result"
| "normalize_loop max_w max_h (img # images) result =
     normalize_loop max_w max_h images (result @ [normalize_one max_w max_h img])"

definition normalize_images :: "image list \<Rightarrow> exc + image list" where
  "normalize_images images =
     (case py_max (map width images) of
        Inl e \<Rightarrow> Inl e
      | Inr max_w \<Rightarrow>
          (case py_max (map height images) of
             Inl e \<Rightarrow> Inl e
           | Inr max_h \<Rightarrow> Inr (normalize_loop max_w max_h images [])))"

subsection \<open>Paths, text and the world\<close>

text \<open>
  A \<^verbatim>\<open>pathlib.Path\<close> is its anchor (\<open>''/''\<close> for an absolute path, empty for a relative
  one) and its parts. \<^verbatim>\<open>p / name\<close> with a plain file name appends a part, and \<^verbatim>\<open>str\<close>
  joins the parts with slashes (the empty relative path prints as a dot).
\<close>

datatype path = Path string "string list"

fun joinpath :: "path \<Rightarrow> string \<Rightarrow> path" where
  "joinpath (Path anchor parts) name = Path anchor (parts @ [name])"

fun join_parts :: "string list \<Rightarrow> string" where
  "join_parts [] = []"
| "join_parts [p] = p"
| "join_parts (p # q # ps) = p @ ''/'' @ join_parts (q # ps)"

fun str_path :: "path \<Rightarrow> string" where
  "str_path (Path anchor parts) =
     (if anchor = [] \<and> parts = [] then ''.'' else anchor @ join_parts parts)"

text \<open>\<^verbatim>\<open>str\<close> of an integer, as the f-strings format it: decimal, no padding.\<close>

fun str_nat :: "nat \<Rightarrow> string" where
  "str_nat n =
     (if n < 10 then [''0123456789'' ! n]
      else str_nat (n div 10) @ [''0123456789'' ! (n mod 10)])"

definition str_int :: "int \<Rightarrow> string" where
  "str_int i = (if i < 0 then ''-'' @ str_nat (nat (- i)) else str_nat (nat i))"

text \<open>
  \<^verbatim>\<open>f'{size_kb:.0f}'\<close> for \<^verbatim>\<open>size_kb = st_size / 1024\<close>: the quotient is exact in binary
  floating point for every file size below \<open>2 ^ 53\<close>, and the format rounds it to the
  nearest integer, a tie to the even one.
\<close>

definition format_kb :: "nat \<Rightarrow> string" where
  "format_kb st_size =
     (let q = st_size div 1024; r = st_size mod 1024
      in str_nat (if 512 < r \<or> (r = 512 \<and> odd q) then q + 1 else q))"

text \<open>
  The world the script runs in: the files it can see (their bytes, by path), which paths
  can be written (a write elsewhere fails with OSError: a missing directory, no
  permission), and the lines printed so far.
\<close>

type_synonym bytes = "byte list"

record world =
  files :: "path \<Rightarrow> bytes option"
  writable :: "path \<Rightarrow> bool"
  stdout :: "string list"

definition py_print :: "string \<Rightarrow> world \<Rightarrow> world" where
  "py_print line w = w\<lparr>stdout := stdout w @ [line]\<rparr>"

definition path_exists :: "world \<Rightarrow> path \<Rightarrow> bool" where
  "path_exists w p = (files w p \<noteq> None)"

text \<open>
  The imaging library's codecs are parameters of the model: \<open>decode\<close> reads the bytes
  of an image file (\<open>None\<close> when they are not an image it can read) and \<open>encode\<close> gives
  the bytes of an animated GIF with the given frames and options.
\<close>

record animation =
  frames :: "image list"
  duration :: "int list"
  loop :: int
  optimize :: bool

type_synonym decoder = "bytes \<Rightarrow> image option"
type_synonym encoder = "animation \<Rightarrow> bytes"

definition Image_open :: "decoder \<Rightarrow> world \<Rightarrow> path \<Rightarrow> exc + image" where
  "Image_open decode w p =
     (case files w p of
        None \<Rightarrow> Inl FileNotFoundError
      | Some data \<Rightarrow>
          (case decode data of None \<Rightarrow> Inl UnidentifiedImageError | Some img \<Rightarrow> Inr img))"

text \<open>\<^verbatim>\<open>first.save(path, save_all=True, append_images=rest, duration=durs, loop=0,
  optimize=True)\<close>.\<close>

definition Image_save ::
  "encoder \<Rightarrow> image \<Rightarrow> path \<Rightarrow> image list \<Rightarrow> int list \<Rightarrow> world \<Rightarrow> exc + world" where
  "Image_save encode first p append_images durs w =
     (if writable w p
      then Inr (w\<lparr>files := (files w)(p \<mapsto>
                  encode \<lparr>frames = first # append_images, duration = durs,
                          loop = 0, optimize = True\<rparr>)\<rparr>)
      else Inl OSError)"

subsection \<open>load_frames (lines 41 to 49)\<close>

definition frame_path :: "path \<Rightarrow> int \<Rightarrow> path" where
  "frame_path frames_dir i = joinpath frames_dir (''frame-'' @ str_int i @ ''.png'')"

text \<open>The loop, with \<open>images\<close> as its accumulator; \<^verbatim>\<open>sys.exit(1)\<close> and an exception of
  the decoder end it.\<close>

fun load_loop ::
  "decoder \<Rightarrow> path \<Rightarrow> int list \<Rightarrow> image list \<Rightarrow> world \<Rightarrow> (exc + image list) \<times> world" where
  "load_loop decode frames_dir [] images w = (Inr images, w)"
| "load_loop decode frames_dir (i # indices) images w =
     (let p = frame_path frames_dir i in
      if \<not> path_exists w p
      then (Inl (SystemExit 1), py_print (''Missing: '' @ str_path p) w)
      else (case Image_open decode w p of
              Inl e \<Rightarrow> (Inl e, w)
            | Inr img \<Rightarrow> load_loop decode frames_dir indices (images @ [convert img RGBA]) w))"

definition load_frames ::
  "decoder \<Rightarrow> path \<Rightarrow> int list \<Rightarrow> world \<Rightarrow> (exc + image list) \<times> world" where
  "load_frames decode frames_dir indices w = load_loop decode frames_dir indices [] w"

subsection \<open>save_gif (lines 66 to 78)\<close>

text \<open>Line 78, the summary line: path, size of the first frame, number of frames and the
  file's size in KB.\<close>

definition summary_line :: "path \<Rightarrow> nat \<Rightarrow> nat \<Rightarrow> nat \<Rightarrow> nat \<Rightarrow> string" where
  "summary_line p w h n st_size =
     ''  '' @ str_path p @ '' ('' @ str_nat w @ ''x'' @ str_nat h @ '', '' @ str_nat n
       @ '' frames, '' @ format_kb st_size @ ''KB)''"

definition save_gif ::
  "encoder \<Rightarrow> image list \<Rightarrow> int list \<Rightarrow> path \<Rightarrow> world \<Rightarrow> (exc + unit) \<times> world" where
  "save_gif encode images durs p w =
     (case normalize_images images of
        Inl e \<Rightarrow> (Inl e, w)
      | Inr norm \<Rightarrow>
          (case norm of
             [] \<Rightarrow> (Inl IndexError, w)
           | first # rest \<Rightarrow>
               (case Image_save encode first p rest durs w of
                  Inl e \<Rightarrow> (Inl e, w)
                | Inr w' \<Rightarrow>
                    (case files w' p of
                       None \<Rightarrow> (Inl FileNotFoundError, w')
                     | Some data \<Rightarrow>
                         (Inr (),
                          py_print
                            (summary_line p (width first) (height first) (length norm)
                               (length data))
                            w')))))"

subsection \<open>The module's driver (lines 81 to 90)\<close>

text \<open>
  The run of the module for given \<^verbatim>\<open>frames_dir\<close> and \<^verbatim>\<open>out_dir\<close> (the two command-line
  arguments or their defaults, lines 7 and 8). The tables of lines 13 to 38 are computed
  before anything is printed. The result is how the run ends, an exception ending it
  where it is raised, and the world it leaves.
\<close>

definition all_indices :: "int list" where
  "all_indices = py_range 1 (int (length base_durations) + 1)"

definition run ::
  "decoder \<Rightarrow> encoder \<Rightarrow> path \<Rightarrow> path \<Rightarrow> world \<Rightarrow> (exc + unit) \<times> world" where
  "run decode encode frames_dir out_dir w0 =
     (case worktree_durations of
        Inl e \<Rightarrow> (Inl e, w0)
      | Inr wt_durs \<Rightarrow>
          (let w1 = py_print (''Speed: '' @ str_int SPEED @ ''x'') w0 in
           case load_frames decode frames_dir all_indices w1 of
             (Inl e, w2) \<Rightarrow> (Inl e, w2)
           | (Inr all_images, w2) \<Rightarrow>
               (case save_gif encode all_images durations (joinpath out_dir ''demo.gif'') w2 of
                  (Inl e, w3) \<Rightarrow> (Inl e, w3)
                | (Inr _, w3) \<Rightarrow>
                    (case load_frames decode frames_dir WORKTREE_FRAMES w3 of
                       (Inl e, w4) \<Rightarrow> (Inl e, w4)
                     | (Inr wt_images, w4) \<Rightarrow>
                         save_gif encode wt_images wt_durs
                           (joinpath out_dir ''worktree.gif'') w4))))"

text \<open>The exit status of the process: 0 when the module runs to its end, the argument
  of \<^verbatim>\<open>sys.exit\<close>, and 1 for any other exception, which nothing catches.\<close>

fun exit_status :: "exc + unit \<Rightarrow> int" where
  "exit_status (Inr _) = 0"
| "exit_status (Inl (SystemExit n)) = n"
| "exit_status (Inl _) = 1"

text \<open>A frame file that is present and that the decoder reads as the given image.\<close>

definition frame_decodes :: "decoder \<Rightarrow> world \<Rightarrow> path \<Rightarrow> int \<Rightarrow> image \<Rightarrow> bool" where
  "frame_decodes decode w frames_dir i img =
     (case files w (frame_path frames_dir i) of
        None \<Rightarrow> False
      | Some data \<Rightarrow> decode data = Some img)"

text \<open>The canvas size the claims speak of: the largest width and the largest height
  among the images (for a non-empty list).\<close>

definition max_width :: "image list \<Rightarrow> nat" where
  "max_width images = Max (set (map width images))"

definition max_height :: "image list \<Rightarrow> nat" where
  "max_height images = Max (set (map height images))"

subsection \<open>The GIF writer and reader\<close>

text \<open>
  What a reader reports of a GIF file: the number of frames it holds, and its width and
  height.
\<close>

type_synonym gif_reader = "bytes \<Rightarrow> nat \<times> nat \<times> nat"

text \<open>
  The library's GIF writer does not store every frame it is handed: it compares each frame
  with the last one it stored and, finding no difference, stores no new frame but adds the
  frame's duration to that one. \<open>stored_frames same\<close> are the frames it stores, \<open>same\<close>
  being its test for "no difference" (made after its palette conversion), and
  \<open>no_repeat same\<close> says that no frame of a sequence is folded into its predecessor.
\<close>

fun stored_frames :: "(image \<Rightarrow> image \<Rightarrow> bool) \<Rightarrow> image list \<Rightarrow> image list" where
  "stored_frames same [] = []"
| "stored_frames same [f] = [f]"
| "stored_frames same (f # g # rest) =
     (if same f g then stored_frames same (f # rest) else f # stored_frames same (g # rest))"

fun no_repeat :: "(image \<Rightarrow> image \<Rightarrow> bool) \<Rightarrow> image list \<Rightarrow> bool" where
  "no_repeat same [] = True"
| "no_repeat same [f] = True"
| "no_repeat same (f # g # rest) = (\<not> same f g \<and> no_repeat same (g # rest))"

text \<open>
  An encoder and a reader that agree with that: the file written for a non-empty sequence
  holds the stored frames, at the size of the first frame handed in.
\<close>

definition writer_stores :: "encoder \<Rightarrow> gif_reader \<Rightarrow> (image \<Rightarrow> image \<Rightarrow> bool) \<Rightarrow> bool" where
  "writer_stores encode reader same =
     (\<forall>a. case frames a of
            [] \<Rightarrow> True
          | f # _ \<Rightarrow> reader (encode a) =
                      (length (stored_frames same (frames a)), width f, height f))"

subsection \<open>Defaults and example inputs\<close>

text \<open>The defaults of lines 7 and 8.\<close>

definition default_frames_dir :: path where
  "default_frames_dir = Path ''/'' [''tmp'', ''recomposable-frames'']"

definition default_out_dir :: path where
  "default_out_dir = Path '''' [''screenshots'']"

text \<open>Example inputs: a small transparent RGBA frame, a larger RGB frame, a decoder that
  reads them from one-byte files, an encoder whose output has 60 bytes per frame, and a
  world holding the 18 frame files, frame 9 being the larger one.\<close>

definition small_frame :: image where
  "small_frame = \<lparr>width = 2, height = 2, raster = RGBA_raster (\<lambda>x y. (200, 100, 50, 0))\<rparr>"

definition large_frame :: image where
  "large_frame = \<lparr>width = 4, height = 3, raster = RGB_raster (\<lambda>x y. (1, 2, 3))\<rparr>"

definition example_decode :: decoder where
  "example_decode data =
     (if data = [9] then Some large_frame else if data = [0] then Some small_frame else None)"

definition example_encode :: encoder where
  "example_encode a = replicate (60 * length (frames a)) 0"

definition example_world :: world where
  "example_world =
     \<lparr>files = (\<lambda>p. if p = frame_path default_frames_dir 9 then Some [9]
                   else if p \<in> set (map (frame_path default_frames_dir) all_indices) then Some [0]
                   else None),
      writable = (\<lambda>p. True),
      stdout = []\<rparr>"

definition example_image :: "int \<Rightarrow> image" where
  "example_image i = (if i = 9 then large_frame else small_frame)"

text \<open>
  Further example inputs: a writer that folds a frame into its predecessor when both have
  the same size and pixels, writing the frame count, width and height in unary; its
  reader; and a world whose 18 frames all differ (frame \<open>i\<close> has the red value \<open>i\<close>, frame 9
  being larger).
\<close>

definition same_image :: "image \<Rightarrow> image \<Rightarrow> bool" where
  "same_image a b =
     (width a = width b \<and> height a = height b
      \<and> list_all (\<lambda>x. list_all (\<lambda>y. getpixel a (x, y) = getpixel b (x, y)) [0..<height a])
           [0..<width a])"

definition merging_encode :: encoder where
  "merging_encode a =
     (case frames a of
        [] \<Rightarrow> []
      | f # _ \<Rightarrow>
          replicate (length (stored_frames same_image (frames a))) 0 @ [1]
            @ replicate (width f) 0 @ [1] @ replicate (height f) 0)"

definition read_unary :: gif_reader where
  "read_unary data =
     (let n = length (takeWhile (\<lambda>b. b = 0) data);
          data' = drop (Suc n) data;
          w = length (takeWhile (\<lambda>b. b = 0) data');
          data'' = drop (Suc w) data'
      in (n, w, length (takeWhile (\<lambda>b. b = 0) data'')))"

definition tinted_frame :: "byte \<Rightarrow> image" where
  "tinted_frame b =
     \<lparr>width = (if b = 9 then 4 else 2), height = (if b = 9 then 3 else 2),
      raster = RGBA_raster (\<lambda>x y. (b, 0, 0, 255))\<rparr>"

definition tinted_decode :: decoder where
  "tinted_decode data = (case data of [b] \<Rightarrow> Some (tinted_frame b) | _ \<Rightarrow> None)"

definition tinted_world :: world where
  "tinted_world =
     \<lparr>files = map_of (map (\<lambda>i. (frame_path default_frames_dir i, [of_int i])) all_indices),
      writable = (\<lambda>p. True),
      stdout = []\<rparr>"


subsection \<open>Facts about the duration tables\<close>

lemma length_base_durations: "length base_durations = 18"
  by (simp add: base_durations_def)

lemma durations_value:
  "durations =
     [833, 500, 666, 1000, 833, 400, 400, 1166, 666,
      500, 833, 666, 1000, 400, 400, 666, 666, 1166]"
  by (simp add: durations_def SPEED_def base_durations_def)

lemma WORKTREE_FRAMES_value: "WORKTREE_FRAMES = [9, 10, 11, 12, 13]"
  by (simp add: WORKTREE_FRAMES_def py_range_def)

lemma derive_durations_SPEED: "derive_durations SPEED base_durations = Inr durations"
  by (simp add: derive_durations_def durations_def SPEED_def)

lemma worktree_durations_value: "worktree_durations = Inr [666, 500, 833, 666, 1000]"
  by (simp add: worktree_durations_def WORKTREE_FRAMES_value durations_value getitem_def)

text \<open>
  C1. For a speed multiplier \<open>s \<ge> 1\<close> the derivation succeeds, and the derived table has
  one entry per baseline entry, equal to \<open>max 50 (b div s)\<close> with floor division, hence
  at least 50 (never zero or negative). The module's own table \<open>durations\<close> is this
  derivation at the configured \<open>SPEED\<close>, which is at least 1.
\<close>

theorem derived_duration_floor:
  "1 \<le> s \<Longrightarrow>
     (\<exists>ds. derive_durations s base_durations = Inr ds
        \<and> length ds = length base_durations
        \<and> (\<forall>i < length base_durations.
              ds ! i = max 50 ((base_durations ! i) div s) \<and> 50 \<le> ds ! i))
     \<and> 1 \<le> SPEED
     \<and> derive_durations SPEED base_durations = Inr durations
     \<and> (\<forall>i < length durations. 50 \<le> durations ! i)"
  by (auto simp: derive_durations_def durations_def SPEED_def)

theorem derived_duration_floor_witness:
  "(1::int) \<le> 7
   \<and> derive_durations 7 base_durations =
       Inr [357, 214, 285, 428, 357, 171, 171, 500, 285,
            214, 357, 285, 428, 171, 171, 285, 285, 500]
   \<and> derive_durations 100 base_durations =
       Inr [50, 50, 50, 50, 50, 50, 50, 50, 50, 50, 50, 50, 50, 50, 50, 50, 50, 50]"
  using derived_duration_floor [of 7] derived_duration_floor [of 100]
  by (simp add: derive_durations_def base_durations_def)

text \<open>
  C7. With speed multiplier 1 the derived table is the baseline table, entry for entry:
  every baseline entry is at least 50, so the floor changes nothing.
\<close>

theorem speed_one_reproduces_base:
  "derive_durations 1 base_durations = Inr base_durations
   \<and> list_all (\<lambda>b. 50 \<le> b) base_durations
   \<and> length base_durations = 18"
  by (simp add: derive_durations_def base_durations_def)

text \<open>
  C4. The subrange plan's durations are the derived table read at the positions
  \<open>WORKTREE_FRAMES ! j - 1\<close>, that is positions 9 to 13 counted from 1, in order: the
  five consecutive entries of \<open>durations\<close> after the first eight. The lookups stay in
  range (no IndexError), and there is one duration per frame index.
\<close>

theorem worktree_durations_positional:
  "worktree_durations = Inr (map (\<lambda>i. durations ! nat (i - 1)) WORKTREE_FRAMES)
   \<and> worktree_durations = Inr (take 5 (drop 8 durations))
   \<and> worktree_durations =
       Inr [durations ! 8, durations ! 9, durations ! 10, durations ! 11, durations ! 12]
   \<and> WORKTREE_FRAMES = [9, 10, 11, 12, 13]
   \<and> (\<exists>wd. worktree_durations = Inr wd \<and> length wd = length WORKTREE_FRAMES)"
  by (simp add: worktree_durations_value WORKTREE_FRAMES_value durations_value)

subsection \<open>Facts about images and normalize\<close>

lemma py_max_Max: "xs \<noteq> [] \<Longrightarrow> py_max xs = Inr (Max (set xs))"
  by (cases xs) (simp_all add: py_max_def Max.set_eq_fold [symmetric])

lemma normalize_loop_map:
  "normalize_loop max_w max_h images result = result @ map (normalize_one max_w max_h) images"
  by (induction images arbitrary: result) simp_all

lemma normalize_images_Nil: "normalize_images [] = Inl ValueError"
  by (simp add: normalize_images_def py_max_def)

lemma normalize_images_nonempty:
  "images \<noteq> [] \<Longrightarrow>
     normalize_images images =
       Inr (map (normalize_one (max_width images) (max_height images)) images)"
  by (simp add: normalize_images_def py_max_Max normalize_loop_map max_width_def max_height_def)

lemma width_le_max_width: "i < length images \<Longrightarrow> width (images ! i) \<le> max_width images"
  by (simp add: max_width_def)

lemma height_le_max_height: "i < length images \<Longrightarrow> height (images ! i) \<le> max_height images"
  by (simp add: max_height_def)

lemma rgb_bands_RGB [simp]: "rgb_bands (RGB_raster f) = f"
  by (rule ext)+ simp

lemma rgba_bands_RGBA [simp]: "rgba_bands (RGBA_raster f) = f"
  by (rule ext)+ simp

lemma size_convert [simp]:
  "width (convert img m) = width img" "height (convert img m) = height img"
  by (cases m; simp)+

lemma mode_convert [simp]: "mode (convert img m) = m"
  by (cases m) (simp_all add: mode_def)

lemma convert_own_mode: "mode img = m \<Longrightarrow> convert img m = img"
  by (cases m; cases "raster img") (auto simp: mode_def)

lemma getpixel_convert_RGB:
  "getpixel img xy = Inr p \<Longrightarrow> getpixel (convert img RGB) xy = Inr (drop_alpha p)"
  by (cases xy; cases "raster img")
     (auto simp: getpixel_def split: prod.splits if_splits)

lemma getpixel_in_range:
  "x < width img \<Longrightarrow> y < height img \<Longrightarrow> \<exists>p. getpixel img (x, y) = Inr p"
  by (simp add: getpixel_def)

lemma getpixel_RGB_mode:
  "mode img = RGB \<Longrightarrow> getpixel img xy = Inr p \<Longrightarrow> drop_alpha p = p"
  by (cases "raster img"; cases xy)
     (auto simp: mode_def getpixel_def split: prod.splits if_splits)

declare convert.simps [simp del]

lemma normalize_one_fits:
  "width img = w \<Longrightarrow> height img = h \<Longrightarrow> normalize_one w h img = convert img RGB"
  by (simp add: normalize_one_def)

lemma normalize_one_pastes:
  "width img \<noteq> w \<or> height img \<noteq> h \<Longrightarrow>
     normalize_one w h img = paste (Image_new RGB (w, h) (30, 30, 30)) img (0, 0)"
  by (auto simp: normalize_one_def)

lemma width_normalize_one [simp]: "width (normalize_one w h img) = w"
  by (simp add: normalize_one_def paste_def)

lemma height_normalize_one [simp]: "height (normalize_one w h img) = h"
  by (simp add: normalize_one_def paste_def)

lemma mode_paste [simp]: "mode (paste canvas img xy) = mode canvas"
  by (cases "raster canvas") (simp_all add: paste_def mode_def)

lemma mode_normalize_one [simp]: "mode (normalize_one w h img) = RGB"
  by (simp add: normalize_one_def) (simp add: mode_def)

lemma getpixel_normalize_one_inside:
  assumes "x < width img" "y < height img" "width img \<le> w" "height img \<le> h"
  shows "\<exists>p. getpixel img (x, y) = Inr p
            \<and> getpixel (normalize_one w h img) (x, y) = Inr (drop_alpha p)"
proof (cases "width img = w \<and> height img = h")
  case True
  obtain p where p: "getpixel img (x, y) = Inr p"
    using getpixel_in_range [OF assms(1,2)] by blast
  with True show ?thesis
    by (simp add: normalize_one_fits getpixel_convert_RGB)
next
  case False
  with assms show ?thesis
    by (cases "raster img")
       (auto simp: normalize_one_def getpixel_def paste_def in_box_def split: prod.splits)
qed

lemma getpixel_normalize_one_outside:
  assumes "width img \<noteq> w \<or> height img \<noteq> h" "x < w" "y < h"
    and "\<not> (x < width img \<and> y < height img)"
  shows "getpixel (normalize_one w h img) (x, y) = Inr (RGB_pixel 30 30 30)"
  using assms
  by (auto simp: normalize_one_def getpixel_def paste_def in_box_def)

lemma max_width_normalized:
  "images \<noteq> [] \<Longrightarrow> max_width (map (normalize_one w h) images) = w"
  by (simp add: max_width_def o_def)

lemma max_height_normalized:
  "images \<noteq> [] \<Longrightarrow> max_height (map (normalize_one w h) images) = h"
  by (simp add: max_height_def o_def)

subsection \<open>Facts about the loader, save_gif and paths\<close>

lemma load_loop_files [simp]:
  "files (snd (load_loop decode fd indices images w)) = files w"
  by (induction indices arbitrary: images)
     (auto simp: Let_def py_print_def split: sum.splits)

lemma load_loop_ok:
  "\<forall>i \<in> set indices. frame_decodes decode w fd i (imgs i) \<Longrightarrow>
     load_loop decode fd indices images w =
       (Inr (images @ map (\<lambda>i. convert (imgs i) RGBA) indices), w)"
  by (induction indices arbitrary: images)
     (auto simp: Let_def frame_decodes_def path_exists_def Image_open_def split: option.splits)

lemma load_loop_absent:
  "k \<in> set indices \<Longrightarrow> files w (frame_path fd k) = None \<Longrightarrow>
     \<exists>e. fst (load_loop decode fd indices images w) = Inl e \<and> exit_status (Inl e) = 1"
  by (induction indices arbitrary: images)
     (auto simp: Let_def path_exists_def Image_open_def split: option.splits)

lemma load_loop_first_absent:
  "\<forall>j \<in> set pre. \<exists>img. frame_decodes decode w fd j img \<Longrightarrow>
   files w (frame_path fd k) = None \<Longrightarrow>
     load_loop decode fd (pre @ k # post) images w =
       (Inl (SystemExit 1), py_print (''Missing: '' @ str_path (frame_path fd k)) w)"
  by (induction pre arbitrary: images)
     (auto simp: Let_def frame_decodes_def path_exists_def Image_open_def split: option.splits)

lemma save_gif_Nil: "save_gif encode [] durs p w = (Inl ValueError, w)"
  by (simp add: save_gif_def normalize_images_Nil)

lemma save_gif_ok:
  assumes "images \<noteq> []" "writable w p"
  shows "save_gif encode images durs p w =
     (Inr (),
      py_print
        (summary_line p (max_width images) (max_height images) (length images)
           (length (encode \<lparr>frames = map (normalize_one (max_width images) (max_height images)) images,
                            duration = durs, loop = 0, optimize = True\<rparr>)))
        (w\<lparr>files := (files w)(p \<mapsto>
              encode \<lparr>frames = map (normalize_one (max_width images) (max_height images)) images,
                      duration = durs, loop = 0, optimize = True\<rparr>)\<rparr>))"
proof -
  obtain x xs where images: "images = x # xs"
    using assms(1) by (cases images) auto
  show ?thesis
    using assms(2) unfolding save_gif_def normalize_images_nonempty [OF assms(1)]
    by (simp add: images Image_save_def)
qed

lemma joinpath_eq_iff [simp]:
  "joinpath p a = joinpath q b \<longleftrightarrow> p = q \<and> a = b"
  by (cases p; cases q) auto

lemma frame_path_not_output [simp]:
  "frame_path fd i \<noteq> joinpath od ''demo.gif''"
  "frame_path fd i \<noteq> joinpath od ''worktree.gif''"
  by (simp_all add: frame_path_def)

lemma all_indices_value:
  "all_indices = [1, 2, 3, 4, 5, 6, 7, 8, 9, 10, 11, 12, 13, 14, 15, 16, 17, 18]"
  by (simp add: all_indices_def py_range_def base_durations_def upto_rec1)

lemma str_int_SPEED: "str_int SPEED = ''3''"
  by (simp add: str_int_def SPEED_def)

subsection \<open>Facts about the driver\<close>

lemma run_load_fails:
  "load_frames decode fd all_indices (py_print ''Speed: 3x'' w) = (Inl e, w') \<Longrightarrow>
     run decode encode fd od w = (Inl e, w')"
  by (simp add: run_def worktree_durations_value str_int_SPEED)

lemma run_absent:
  assumes "k \<in> set all_indices" "files w (frame_path fd k) = None"
  shows "exit_status (fst (run decode encode fd od w)) = 1
       \<and> files (snd (run decode encode fd od w)) = files w"
proof -
  let ?w1 = "py_print ''Speed: 3x'' w"
  have f1: "files ?w1 = files w" by (simp add: py_print_def)
  obtain r w' where l: "load_frames decode fd all_indices ?w1 = (r, w')"
    by (cases "load_frames decode fd all_indices ?w1")
  from load_loop_absent [OF assms(1), of ?w1 fd decode "[]"] assms(2) f1 l
  obtain e where e: "r = Inl e" "exit_status (Inl e) = 1"
    by (auto simp: load_frames_def)
  have "files (snd (load_frames decode fd all_indices ?w1)) = files ?w1"
    by (simp add: load_frames_def)
  with l f1 have "files w' = files w"
    by simp
  with run_load_fails [of decode fd w e w' encode od] l e show ?thesis
    by simp
qed

lemma run_first_absent:
  assumes "all_indices = pre @ k # post"
    and "\<forall>j \<in> set pre. \<exists>img. frame_decodes decode w fd j img"
    and "files w (frame_path fd k) = None"
  shows "run decode encode fd od w =
     (Inl (SystemExit 1),
      w\<lparr>stdout := stdout w @ [''Speed: 3x'', ''Missing: '' @ str_path (frame_path fd k)]\<rparr>)"
proof -
  let ?w1 = "py_print ''Speed: 3x'' w"
  have pre: "\<forall>j \<in> set pre. \<exists>img. frame_decodes decode ?w1 fd j img"
    using assms(2) by (simp add: frame_decodes_def py_print_def)
  have absent: "files ?w1 (frame_path fd k) = None"
    using assms(3) by (simp add: py_print_def)
  have "load_frames decode fd all_indices ?w1 =
      (Inl (SystemExit 1), py_print (''Missing: '' @ str_path (frame_path fd k)) ?w1)"
    unfolding load_frames_def assms(1) using pre absent by (rule load_loop_first_absent)
  then have "run decode encode fd od w =
      (Inl (SystemExit 1), py_print (''Missing: '' @ str_path (frame_path fd k)) ?w1)"
    by (rule run_load_fails)
  then show ?thesis by (simp add: py_print_def)
qed

lemma run_ok:
  assumes dec: "\<forall>i \<in> set all_indices. frame_decodes decode w fd i (imgs i)"
    and wr: "writable w (joinpath od ''demo.gif'')" "writable w (joinpath od ''worktree.gif'')"
  defines "all_images \<equiv> map (\<lambda>i. convert (imgs i) RGBA) all_indices"
    and "wt_images \<equiv> map (\<lambda>i. convert (imgs i) RGBA) WORKTREE_FRAMES"
  defines "demo \<equiv> \<lparr>frames = map (normalize_one (max_width all_images) (max_height all_images)) all_images,
                     duration = durations, loop = 0, optimize = True\<rparr>"
    and "wt \<equiv> \<lparr>frames = map (normalize_one (max_width wt_images) (max_height wt_images)) wt_images,
                     duration = [666, 500, 833, 666, 1000], loop = 0, optimize = True\<rparr>"
  shows "run decode encode fd od w =
     (Inr (),
      w\<lparr>files := (files w)(joinpath od ''demo.gif'' \<mapsto> encode demo,
                            joinpath od ''worktree.gif'' \<mapsto> encode wt),
        stdout := stdout w @
          [''Speed: 3x'',
           summary_line (joinpath od ''demo.gif'') (max_width all_images) (max_height all_images)
             18 (length (encode demo)),
           summary_line (joinpath od ''worktree.gif'') (max_width wt_images) (max_height wt_images)
             5 (length (encode wt))]\<rparr>)"
proof -
  let ?w1 = "py_print ''Speed: 3x'' w"
  let ?dp = "joinpath od ''demo.gif''" and ?wp = "joinpath od ''worktree.gif''"
  have dec1: "\<forall>i \<in> set all_indices. frame_decodes decode ?w1 fd i (imgs i)"
    using dec by (simp add: frame_decodes_def py_print_def)
  have l1: "load_frames decode fd all_indices ?w1 = (Inr all_images, ?w1)"
    using load_loop_ok [OF dec1, of "[]"] by (simp add: load_frames_def all_images_def)
  have ne1: "all_images \<noteq> []" and len1: "length all_images = 18"
    by (simp_all add: all_images_def all_indices_value)
  have wr1: "writable ?w1 ?dp" using wr(1) by (simp add: py_print_def)
  let ?w3 = "py_print
        (summary_line ?dp (max_width all_images) (max_height all_images) 18
           (length (encode demo)))
        (?w1\<lparr>files := (files ?w1)(?dp \<mapsto> encode demo)\<rparr>)"
  have s1: "save_gif encode all_images durations ?dp ?w1 = (Inr (), ?w3)"
    using save_gif_ok [OF ne1 wr1, of encode durations] by (simp add: demo_def len1)
  have sub: "set WORKTREE_FRAMES \<subseteq> set all_indices"
    by (simp add: WORKTREE_FRAMES_value all_indices_value)
  have dec3: "\<forall>i \<in> set WORKTREE_FRAMES. frame_decodes decode ?w3 fd i (imgs i)"
    using dec sub by (auto simp: frame_decodes_def py_print_def)
  have l2: "load_frames decode fd WORKTREE_FRAMES ?w3 = (Inr wt_images, ?w3)"
    using load_loop_ok [OF dec3, of "[]"] by (simp add: load_frames_def wt_images_def)
  have ne2: "wt_images \<noteq> []" and len2: "length wt_images = 5"
    by (simp_all add: wt_images_def WORKTREE_FRAMES_value)
  have wr3: "writable ?w3 ?wp" using wr(2) by (simp add: py_print_def)
  have s2: "save_gif encode wt_images [666, 500, 833, 666, 1000] ?wp ?w3 =
     (Inr (),
      py_print
        (summary_line ?wp (max_width wt_images) (max_height wt_images) 5
           (length (encode wt)))
        (?w3\<lparr>files := (files ?w3)(?wp \<mapsto> encode wt)\<rparr>))"
    using save_gif_ok [OF ne2 wr3, of encode "[666, 500, 833, 666, 1000]"] by (simp add: wt_def len2)
  show ?thesis
    unfolding run_def worktree_durations_value
    by (simp add: str_int_SPEED l1 s1 l2 s2) (simp add: py_print_def)
qed

lemma max_width_map_convert:
  "max_width (map (\<lambda>i. convert (f i) m) xs) = max_width (map f xs)"
  by (simp add: max_width_def o_def)

lemma max_height_map_convert:
  "max_height (map (\<lambda>i. convert (f i) m) xs) = max_height (map f xs)"
  by (simp add: max_height_def o_def)

lemma all_indices_upto: "all_indices = [1..18]"
  by (simp add: all_indices_def py_range_def base_durations_def)

lemma all_indices_split:
  assumes "k \<in> set all_indices"
  shows "all_indices = [1..k - 1] @ k # [k + 1..18]"
  using assms unfolding all_indices_upto
  by (intro upto_split3) simp_all

lemma frame_path_example:
  "map (frame_path default_frames_dir) all_indices =
     map (\<lambda>n. Path ''/'' [''tmp'', ''recomposable-frames'', n])
       [''frame-1.png'', ''frame-2.png'', ''frame-3.png'', ''frame-4.png'', ''frame-5.png'',
        ''frame-6.png'', ''frame-7.png'', ''frame-8.png'', ''frame-9.png'', ''frame-10.png'',
        ''frame-11.png'', ''frame-12.png'', ''frame-13.png'', ''frame-14.png'',
        ''frame-15.png'', ''frame-16.png'', ''frame-17.png'', ''frame-18.png'']"
  by (simp add: all_indices_value frame_path_def default_frames_dir_def str_int_def)

lemma example_world_decodes:
  "\<forall>i \<in> set all_indices.
     frame_decodes example_decode example_world default_frames_dir i (example_image i)"
  using frame_path_example
  by (simp add: all_indices_value frame_decodes_def example_world_def example_decode_def
      example_image_def)

subsection \<open>Facts about the GIF writer and the example inputs\<close>

lemma stored_frames_hd:
  "fs \<noteq> [] \<Longrightarrow> stored_frames same fs \<noteq> [] \<and> hd (stored_frames same fs) = hd fs"
  by (induction same fs rule: stored_frames.induct) auto

lemma stored_frames_length: "length (stored_frames same fs) \<le> length fs"
  by (induction same fs rule: stored_frames.induct) auto

lemma stored_frames_no_repeat: "no_repeat same fs \<Longrightarrow> stored_frames same fs = fs"
  by (induction same fs rule: stored_frames.induct) auto

lemma takeWhile_zeros:
  "takeWhile (\<lambda>b. b = 0) (replicate n (0::byte) @ 1 # rest) = replicate n 0"
  by (induction n) auto

lemma takeWhile_zeros_end:
  "takeWhile (\<lambda>b. b = 0) (replicate n (0::byte)) = replicate n 0"
  by (induction n) auto

lemma read_unary_triple:
  "read_unary (replicate n 0 @ 1 # replicate w 0 @ 1 # replicate h 0) = (n, w, h)"
  by (simp add: read_unary_def Let_def takeWhile_zeros takeWhile_zeros_end)

lemma merging_encode_stores: "writer_stores merging_encode read_unary same_image"
  unfolding writer_stores_def
  by (auto simp: merging_encode_def read_unary_triple split: list.splits)

lemma reader_of_written:
  assumes "writer_stores encode reader same" "fs \<noteq> []"
    and "\<forall>f \<in> set fs. width f = W \<and> height f = H"
  shows "\<exists>n. reader (encode \<lparr>frames = fs, duration = d, loop = l, optimize = c\<rparr>) = (n, W, H)
            \<and> 1 \<le> n \<and> n \<le> length fs \<and> (no_repeat same fs \<longrightarrow> n = length fs)"
proof -
  obtain f rest where fs: "fs = f # rest"
    using assms(2) by (cases fs) auto
  let ?a = "\<lparr>frames = fs, duration = d, loop = l, optimize = c\<rparr>"
  have "reader (encode ?a) = (length (stored_frames same fs), width f, height f)"
    using assms(1) [unfolded writer_stores_def, rule_format, of ?a] by (simp add: fs)
  moreover have "width f = W" "height f = H"
    using assms(3) by (simp_all add: fs)
  moreover have "1 \<le> length (stored_frames same fs)"
    using stored_frames_hd [OF assms(2), of same] by (cases "stored_frames same fs") auto
  moreover note stored_frames_length [of same fs] stored_frames_no_repeat [of same fs]
  ultimately show ?thesis by auto
qed

lemma tinted_world_decodes:
  "\<forall>i \<in> set all_indices.
     frame_decodes tinted_decode tinted_world default_frames_dir i (tinted_frame (of_int i))"
  by (simp add: all_indices_value frame_decodes_def tinted_world_def tinted_decode_def
      frame_path_def default_frames_dir_def str_int_def)

subsection \<open>Claims about normalize\<close>

text \<open>
  C2. For a non-empty list of images, normalize returns a list of the same length, in the
  same order: the image at each position has the largest input width and the largest
  input height, is in mode RGB, and shows, on the rectangle of the input image at that
  position, that image's colour bands. An input image that already has the canvas size is
  returned converted to RGB (its alpha band dropped, its colours unchanged).
\<close>

theorem normalize_common_size:
  "images \<noteq> [] \<Longrightarrow>
     \<exists>result. normalize_images images = Inr result
        \<and> length result = length images
        \<and> (\<forall>i < length images.
              width (result ! i) = max_width images
            \<and> height (result ! i) = max_height images
            \<and> mode (result ! i) = RGB
            \<and> (\<forall>x < width (images ! i). \<forall>y < height (images ! i).
                  \<exists>p. getpixel (images ! i) (x, y) = Inr p
                     \<and> getpixel (result ! i) (x, y) = Inr (drop_alpha p))
            \<and> (width (images ! i) = max_width images
                 \<and> height (images ! i) = max_height images
                 \<longrightarrow> result ! i = convert (images ! i) RGB))"
proof -
  assume ne: "images \<noteq> []"
  let ?w = "max_width images" and ?h = "max_height images"
  let ?result = "map (normalize_one ?w ?h) images"
  have res: "normalize_images images = Inr ?result"
    using ne by (rule normalize_images_nonempty)
  have "width (?result ! i) = ?w \<and> height (?result ! i) = ?h \<and> mode (?result ! i) = RGB
        \<and> (\<forall>x < width (images ! i). \<forall>y < height (images ! i).
              \<exists>p. getpixel (images ! i) (x, y) = Inr p
                 \<and> getpixel (?result ! i) (x, y) = Inr (drop_alpha p))
        \<and> (width (images ! i) = ?w \<and> height (images ! i) = ?h
             \<longrightarrow> ?result ! i = convert (images ! i) RGB)"
    if i: "i < length images" for i
  proof -
    have "\<forall>x < width (images ! i). \<forall>y < height (images ! i).
            \<exists>p. getpixel (images ! i) (x, y) = Inr p
               \<and> getpixel (normalize_one ?w ?h (images ! i)) (x, y) = Inr (drop_alpha p)"
      using getpixel_normalize_one_inside width_le_max_width [OF i] height_le_max_height [OF i]
      by blast
    with i show ?thesis
      by (simp add: normalize_one_fits)
  qed
  with res show ?thesis by simp
qed

theorem normalize_common_size_witness:
  "[\<lparr>width = 2, height = 1, raster = RGBA_raster (\<lambda>x y. (200, 100, 50, 0))\<rparr>,
    \<lparr>width = 2, height = 3, raster = RGBA_raster (\<lambda>x y. (1, 2, 3, 255))\<rparr>] \<noteq> []
   \<and> (\<exists>result.
         normalize_images
           [\<lparr>width = 2, height = 1, raster = RGBA_raster (\<lambda>x y. (200, 100, 50, 0))\<rparr>,
            \<lparr>width = 2, height = 3, raster = RGBA_raster (\<lambda>x y. (1, 2, 3, 255))\<rparr>] = Inr result
       \<and> length result = 2
       \<and> width (result ! 0) = 2 \<and> height (result ! 0) = 3
       \<and> width (result ! 1) = 2 \<and> height (result ! 1) = 3
       \<and> getpixel (result ! 0) (1, 0) = Inr (RGB_pixel 200 100 50)
       \<and> result ! 1 =
           convert \<lparr>width = 2, height = 3, raster = RGBA_raster (\<lambda>x y. (1, 2, 3, 255))\<rparr> RGB)"
proof -
  let ?a = "\<lparr>width = 2, height = 1, raster = RGBA_raster (\<lambda>x y. (200, 100, 50, 0))\<rparr>"
  let ?b = "\<lparr>width = 2, height = 3, raster = RGBA_raster (\<lambda>x y. (1, 2, 3, 255))\<rparr>"
  have ne: "[?a, ?b] \<noteq> []" by simp
  have mw: "max_width [?a, ?b] = 2" and mh: "max_height [?a, ?b] = 3"
    by (simp_all add: max_width_def max_height_def)
  from normalize_common_size [OF ne] obtain result where
    r: "normalize_images [?a, ?b] = Inr result" "length result = length [?a, ?b]"
    and a: "\<forall>i < length [?a, ?b].
              width (result ! i) = max_width [?a, ?b]
            \<and> height (result ! i) = max_height [?a, ?b]
            \<and> mode (result ! i) = RGB
            \<and> (\<forall>x < width ([?a, ?b] ! i). \<forall>y < height ([?a, ?b] ! i).
                  \<exists>p. getpixel ([?a, ?b] ! i) (x, y) = Inr p
                     \<and> getpixel (result ! i) (x, y) = Inr (drop_alpha p))
            \<and> (width ([?a, ?b] ! i) = max_width [?a, ?b]
                 \<and> height ([?a, ?b] ! i) = max_height [?a, ?b]
                 \<longrightarrow> result ! i = convert ([?a, ?b] ! i) RGB)"
    by blast
  from a have a0: "width (result ! 0) = 2 \<and> height (result ! 0) = 3
      \<and> (\<forall>x < 2. \<forall>y < 1. \<exists>p. getpixel ?a (x, y) = Inr p
                     \<and> getpixel (result ! 0) (x, y) = Inr (drop_alpha p))"
    unfolding mw mh by (elim allE [of _ 0]) simp
  then have "\<exists>p. getpixel ?a (1, 0) = Inr p \<and> getpixel (result ! 0) (1, 0) = Inr (drop_alpha p)"
    by simp
  then have p0: "getpixel (result ! 0) (1, 0) = Inr (RGB_pixel 200 100 50)"
    by (auto simp: getpixel_def)
  from a have a1: "width (result ! 1) = 2 \<and> height (result ! 1) = 3
      \<and> result ! 1 = convert ?b RGB"
    unfolding mw mh by (elim allE [of _ 1]) simp
  show ?thesis
    using ne r a0 a1 p0 by auto
qed

text \<open>
  C3. For an input image smaller than the canvas (in width or in height), the output
  image at its position has, inside the rectangle of the original's size at the origin,
  the original's pixels (their colour bands; exactly the original pixel when the original
  has no alpha band), and the fill colour (30, 30, 30) at every other position of the
  canvas.
\<close>

theorem normalize_pads_smaller:
  "images \<noteq> [] \<Longrightarrow> i < length images \<Longrightarrow>
   width (images ! i) < max_width images \<or> height (images ! i) < max_height images \<Longrightarrow>
     \<exists>result. normalize_images images = Inr result
        \<and> width (result ! i) = max_width images
        \<and> height (result ! i) = max_height images
        \<and> (\<forall>x < max_width images. \<forall>y < max_height images.
              if x < width (images ! i) \<and> y < height (images ! i)
              then \<exists>p. getpixel (images ! i) (x, y) = Inr p
                     \<and> getpixel (result ! i) (x, y) = Inr (drop_alpha p)
                     \<and> (mode (images ! i) = RGB \<longrightarrow> drop_alpha p = p)
              else getpixel (result ! i) (x, y) = Inr (RGB_pixel 30 30 30))"
proof -
  assume ne: "images \<noteq> []" and i: "i < length images"
    and small: "width (images ! i) < max_width images \<or> height (images ! i) < max_height images"
  let ?w = "max_width images" and ?h = "max_height images"
  have res: "normalize_images images = Inr (map (normalize_one ?w ?h) images)"
    using ne by (rule normalize_images_nonempty)
  have differs: "width (images ! i) \<noteq> ?w \<or> height (images ! i) \<noteq> ?h"
    using small by auto
  have "if x < width (images ! i) \<and> y < height (images ! i)
        then \<exists>p. getpixel (images ! i) (x, y) = Inr p
               \<and> getpixel (normalize_one ?w ?h (images ! i)) (x, y) = Inr (drop_alpha p)
               \<and> (mode (images ! i) = RGB \<longrightarrow> drop_alpha p = p)
        else getpixel (normalize_one ?w ?h (images ! i)) (x, y) = Inr (RGB_pixel 30 30 30)"
    if xy: "x < ?w" "y < ?h" for x y
  proof (cases "x < width (images ! i) \<and> y < height (images ! i)")
    case True
    then obtain p where p: "getpixel (images ! i) (x, y) = Inr p"
      "getpixel (normalize_one ?w ?h (images ! i)) (x, y) = Inr (drop_alpha p)"
      using getpixel_normalize_one_inside width_le_max_width [OF i] height_le_max_height [OF i]
      by blast
    have "mode (images ! i) = RGB \<longrightarrow> drop_alpha p = p"
      using getpixel_RGB_mode p(1) by blast
    with True p show ?thesis by simp
  next
    case False
    with getpixel_normalize_one_outside [OF differs xy False] show ?thesis by auto
  qed
  with res i show ?thesis by simp
qed

theorem normalize_pads_smaller_witness:
  "[\<lparr>width = 2, height = 2, raster = RGBA_raster (\<lambda>x y. (200, 100, 50, 128))\<rparr>,
    \<lparr>width = 3, height = 3, raster = RGBA_raster (\<lambda>x y. (1, 2, 3, 255))\<rparr>] \<noteq> []
   \<and> (0::nat) < 2 \<and> (2::nat) < 3
   \<and> (\<exists>result.
         normalize_images
           [\<lparr>width = 2, height = 2, raster = RGBA_raster (\<lambda>x y. (200, 100, 50, 128))\<rparr>,
            \<lparr>width = 3, height = 3, raster = RGBA_raster (\<lambda>x y. (1, 2, 3, 255))\<rparr>] = Inr result
       \<and> width (result ! 0) = 3 \<and> height (result ! 0) = 3
       \<and> getpixel (result ! 0) (0, 0) = Inr (RGB_pixel 200 100 50)
       \<and> getpixel (result ! 0) (1, 1) = Inr (RGB_pixel 200 100 50)
       \<and> getpixel (result ! 0) (2, 0) = Inr (RGB_pixel 30 30 30)
       \<and> getpixel (result ! 0) (0, 2) = Inr (RGB_pixel 30 30 30)
       \<and> getpixel (result ! 0) (2, 2) = Inr (RGB_pixel 30 30 30))"
proof -
  let ?a = "\<lparr>width = 2, height = 2, raster = RGBA_raster (\<lambda>x y. (200, 100, 50, 128))\<rparr>"
  let ?b = "\<lparr>width = 3, height = 3, raster = RGBA_raster (\<lambda>x y. (1, 2, 3, 255))\<rparr>"
  have ne: "[?a, ?b] \<noteq> []" and i: "0 < length [?a, ?b]" by simp_all
  have mw: "max_width [?a, ?b] = 3" and mh: "max_height [?a, ?b] = 3"
    by (simp_all add: max_width_def max_height_def)
  have small: "width ([?a, ?b] ! 0) < max_width [?a, ?b]
             \<or> height ([?a, ?b] ! 0) < max_height [?a, ?b]"
    unfolding mw mh by simp
  from normalize_pads_smaller [OF ne i small] obtain result where
    r: "normalize_images [?a, ?b] = Inr result"
    and sz: "width (result ! 0) = max_width [?a, ?b]" "height (result ! 0) = max_height [?a, ?b]"
    and px: "\<forall>x < max_width [?a, ?b]. \<forall>y < max_height [?a, ?b].
              if x < width ([?a, ?b] ! 0) \<and> y < height ([?a, ?b] ! 0)
              then \<exists>p. getpixel ([?a, ?b] ! 0) (x, y) = Inr p
                     \<and> getpixel (result ! 0) (x, y) = Inr (drop_alpha p)
                     \<and> (mode ([?a, ?b] ! 0) = RGB \<longrightarrow> drop_alpha p = p)
              else getpixel (result ! 0) (x, y) = Inr (RGB_pixel 30 30 30)"
    by blast
  have src: "getpixel ?a (0, 0) = Inr (RGBA_pixel 200 100 50 128)"
    "getpixel ?a (1, 1) = Inr (RGBA_pixel 200 100 50 128)"
    by (simp_all add: getpixel_def)
  have "width (result ! 0) = 3 \<and> height (result ! 0) = 3"
    using sz by (simp add: mw mh)
  moreover have "getpixel (result ! 0) (0, 0) = Inr (RGB_pixel 200 100 50)"
    using px [rule_format, of 0 0] src by (auto simp: mw mh)
  moreover have "getpixel (result ! 0) (1, 1) = Inr (RGB_pixel 200 100 50)"
    using px [rule_format, of 1 1] src by (auto simp: mw mh)
  moreover have "getpixel (result ! 0) (2, 0) = Inr (RGB_pixel 30 30 30)"
    using px [rule_format, of 2 0] by (simp add: mw mh)
  moreover have "getpixel (result ! 0) (0, 2) = Inr (RGB_pixel 30 30 30)"
    using px [rule_format, of 0 2] by (simp add: mw mh)
  moreover have "getpixel (result ! 0) (2, 2) = Inr (RGB_pixel 30 30 30)"
    using px [rule_format, of 2 2] by (simp add: mw mh)
  ultimately show ?thesis
    using r by auto
qed

text \<open>
  C9. The paste onto the canvas uses no mask. For an RGBA image smaller than the canvas,
  the output is the fresh canvas with the image pasted at the origin; at a position
  inside the image whose stored pixel is \<open>(r, g, b, a)\<close> the output pixel is the opaque
  \<open>(r, g, b)\<close>, whatever the alpha \<open>a\<close> (also 0): the fill colour does not show through.
\<close>

theorem paste_discards_alpha:
  "images \<noteq> [] \<Longrightarrow> i < length images \<Longrightarrow>
   width (images ! i) \<noteq> max_width images \<or> height (images ! i) \<noteq> max_height images \<Longrightarrow>
   raster (images ! i) = RGBA_raster f \<Longrightarrow>
   x < width (images ! i) \<Longrightarrow> y < height (images ! i) \<Longrightarrow> f x y = (r, g, b, a) \<Longrightarrow>
     \<exists>result. normalize_images images = Inr result
        \<and> result ! i =
            paste (Image_new RGB (max_width images, max_height images) (30, 30, 30))
              (images ! i) (0, 0)
        \<and> mode (result ! i) = RGB
        \<and> getpixel (images ! i) (x, y) = Inr (RGBA_pixel r g b a)
        \<and> getpixel (result ! i) (x, y) = Inr (RGB_pixel r g b)"
proof -
  assume ne: "images \<noteq> []" and i: "i < length images"
    and differs: "width (images ! i) \<noteq> max_width images
                \<or> height (images ! i) \<noteq> max_height images"
    and f: "raster (images ! i) = RGBA_raster f" "f x y = (r, g, b, a)"
    and xy: "x < width (images ! i)" "y < height (images ! i)"
  let ?w = "max_width images" and ?h = "max_height images"
  let ?out = "normalize_one ?w ?h (images ! i)"
  have res: "normalize_images images = Inr (map (normalize_one ?w ?h) images)"
    using ne by (rule normalize_images_nonempty)
  have nth: "map (normalize_one ?w ?h) images ! i = ?out"
    using i by simp
  have src: "getpixel (images ! i) (x, y) = Inr (RGBA_pixel r g b a)"
    using f xy by (simp add: getpixel_def)
  have pasted: "?out = paste (Image_new RGB (?w, ?h) (30, 30, 30)) (images ! i) (0, 0)"
    using differs by (rule normalize_one_pastes)
  have out: "getpixel ?out (x, y) = Inr (RGB_pixel r g b)"
    using getpixel_normalize_one_inside
      [OF xy width_le_max_width [OF i] height_le_max_height [OF i]] src
    by auto
  have m: "mode ?out = RGB" by simp
  show ?thesis
    using res nth src pasted out m by metis
qed

theorem paste_discards_alpha_witness:
  "[\<lparr>width = 2, height = 1, raster = RGBA_raster (\<lambda>x y. (200, 100, 50, 0))\<rparr>,
    \<lparr>width = 3, height = 2, raster = RGBA_raster (\<lambda>x y. (1, 2, 3, 255))\<rparr>] \<noteq> []
   \<and> (0::nat) < 2 \<and> (2::nat) \<noteq> 3 \<and> (1::nat) < 2 \<and> (0::nat) < 1
   \<and> (\<exists>result.
         normalize_images
           [\<lparr>width = 2, height = 1, raster = RGBA_raster (\<lambda>x y. (200, 100, 50, 0))\<rparr>,
            \<lparr>width = 3, height = 2, raster = RGBA_raster (\<lambda>x y. (1, 2, 3, 255))\<rparr>] = Inr result
       \<and> getpixel \<lparr>width = 2, height = 1, raster = RGBA_raster (\<lambda>x y. (200, 100, 50, 0))\<rparr> (1, 0)
           = Inr (RGBA_pixel 200 100 50 0)
       \<and> getpixel (result ! 0) (1, 0) = Inr (RGB_pixel 200 100 50))"
proof -
  let ?a = "\<lparr>width = 2, height = 1, raster = RGBA_raster (\<lambda>x y. (200, 100, 50, 0))\<rparr>"
  let ?b = "\<lparr>width = 3, height = 2, raster = RGBA_raster (\<lambda>x y. (1, 2, 3, 255))\<rparr>"
  have ne: "[?a, ?b] \<noteq> []" and i: "0 < length [?a, ?b]" by simp_all
  have differs: "width ([?a, ?b] ! 0) \<noteq> max_width [?a, ?b]
               \<or> height ([?a, ?b] ! 0) \<noteq> max_height [?a, ?b]"
    by (simp add: max_width_def max_height_def)
  have f: "raster ([?a, ?b] ! 0) = RGBA_raster (\<lambda>x y. (200, 100, 50, 0))"
    "(\<lambda>x y. (200, 100, 50, 0)) (1::nat) (0::nat) = (200::byte, 100::byte, 50::byte, 0::byte)"
    by simp_all
  have xy: "1 < width ([?a, ?b] ! 0)" "0 < height ([?a, ?b] ! 0)" by simp_all
  from paste_discards_alpha [OF ne i differs f(1) xy f(2)]
  show ?thesis by auto
qed

text \<open>
  C6. normalize is idempotent. For a non-empty list, normalizing the result of normalize
  returns that result again; and a list whose images all have the canvas size comes back
  with the same length, sizes and colour bands at every position, an image already in
  mode RGB being returned as it is.
\<close>

theorem normalize_idempotent:
  "images \<noteq> [] \<Longrightarrow>
     (\<exists>result. normalize_images images = Inr result \<and> normalize_images result = Inr result)
   \<and> ((\<forall>i < length images. width (images ! i) = max_width images
                           \<and> height (images ! i) = max_height images) \<longrightarrow>
        (\<exists>result. normalize_images images = Inr result
           \<and> length result = length images
           \<and> (\<forall>i < length images.
                 width (result ! i) = width (images ! i)
               \<and> height (result ! i) = height (images ! i)
               \<and> (\<forall>x < width (images ! i). \<forall>y < height (images ! i).
                     \<exists>p. getpixel (images ! i) (x, y) = Inr p
                        \<and> getpixel (result ! i) (x, y) = Inr (drop_alpha p))
               \<and> (mode (images ! i) = RGB \<longrightarrow> result ! i = images ! i))))"
proof -
  assume ne: "images \<noteq> []"
  let ?w = "max_width images" and ?h = "max_height images"
  let ?result = "map (normalize_one ?w ?h) images"
  have res: "normalize_images images = Inr ?result"
    using ne by (rule normalize_images_nonempty)
  have ne': "?result \<noteq> []" using ne by simp
  have "map (normalize_one ?w ?h) ?result = ?result"
    by (simp add: normalize_one_fits convert_own_mode)
  then have again: "normalize_images ?result = Inr ?result"
    using normalize_images_nonempty [OF ne']
    by (simp add: max_width_normalized [OF ne] max_height_normalized [OF ne])
  have same: "width (?result ! i) = width (images ! i)
            \<and> height (?result ! i) = height (images ! i)
            \<and> (\<forall>x < width (images ! i). \<forall>y < height (images ! i).
                  \<exists>p. getpixel (images ! i) (x, y) = Inr p
                     \<and> getpixel (?result ! i) (x, y) = Inr (drop_alpha p))
            \<and> (mode (images ! i) = RGB \<longrightarrow> ?result ! i = images ! i)"
    if i: "i < length images"
      and fits: "width (images ! i) = ?w" "height (images ! i) = ?h" for i
  proof -
    have conv: "?result ! i = convert (images ! i) RGB"
      using i fits by (simp add: normalize_one_fits)
    have "\<exists>p. getpixel (images ! i) (x, y) = Inr p
             \<and> getpixel (convert (images ! i) RGB) (x, y) = Inr (drop_alpha p)"
      if "x < width (images ! i)" "y < height (images ! i)" for x y
      using getpixel_in_range [OF that] getpixel_convert_RGB by blast
    then show ?thesis
      unfolding conv by (simp add: convert_own_mode)
  qed
  show ?thesis
  proof (intro conjI impI)
    show "\<exists>result. normalize_images images = Inr result \<and> normalize_images result = Inr result"
      using res again by simp
  next
    assume "\<forall>i < length images. width (images ! i) = ?w \<and> height (images ! i) = ?h"
    with same have all: "\<forall>i < length images.
        width (?result ! i) = width (images ! i)
      \<and> height (?result ! i) = height (images ! i)
      \<and> (\<forall>x < width (images ! i). \<forall>y < height (images ! i).
            \<exists>p. getpixel (images ! i) (x, y) = Inr p
               \<and> getpixel (?result ! i) (x, y) = Inr (drop_alpha p))
      \<and> (mode (images ! i) = RGB \<longrightarrow> ?result ! i = images ! i)"
      by blast
    have len: "length ?result = length images" by simp
    from res len all have "normalize_images images = Inr ?result
           \<and> length ?result = length images
           \<and> (\<forall>i < length images.
                 width (?result ! i) = width (images ! i)
               \<and> height (?result ! i) = height (images ! i)
               \<and> (\<forall>x < width (images ! i). \<forall>y < height (images ! i).
                     \<exists>p. getpixel (images ! i) (x, y) = Inr p
                        \<and> getpixel (?result ! i) (x, y) = Inr (drop_alpha p))
               \<and> (mode (images ! i) = RGB \<longrightarrow> ?result ! i = images ! i))"
      by (intro conjI)
    then show "\<exists>result. normalize_images images = Inr result
           \<and> length result = length images
           \<and> (\<forall>i < length images.
                 width (result ! i) = width (images ! i)
               \<and> height (result ! i) = height (images ! i)
               \<and> (\<forall>x < width (images ! i). \<forall>y < height (images ! i).
                     \<exists>p. getpixel (images ! i) (x, y) = Inr p
                        \<and> getpixel (result ! i) (x, y) = Inr (drop_alpha p))
               \<and> (mode (images ! i) = RGB \<longrightarrow> result ! i = images ! i))"
      by (rule exI [of _ ?result])
  qed
qed

theorem normalize_idempotent_witness:
  "[\<lparr>width = 2, height = 2, raster = RGBA_raster (\<lambda>x y. (200, 100, 50, 128))\<rparr>,
    \<lparr>width = 3, height = 3, raster = RGB_raster (\<lambda>x y. (1, 2, 3))\<rparr>] \<noteq> []
   \<and> (\<exists>result.
         normalize_images
           [\<lparr>width = 2, height = 2, raster = RGBA_raster (\<lambda>x y. (200, 100, 50, 128))\<rparr>,
            \<lparr>width = 3, height = 3, raster = RGB_raster (\<lambda>x y. (1, 2, 3))\<rparr>] = Inr result
       \<and> normalize_images result = Inr result
       \<and> length result = 2
       \<and> result ! 1 = \<lparr>width = 3, height = 3, raster = RGB_raster (\<lambda>x y. (1, 2, 3))\<rparr>)"
proof -
  let ?a = "\<lparr>width = 2, height = 2, raster = RGBA_raster (\<lambda>x y. (200, 100, 50, 128))\<rparr>"
  let ?b = "\<lparr>width = 3, height = 3, raster = RGB_raster (\<lambda>x y. (1, 2, 3))\<rparr>"
  have ne: "[?a, ?b] \<noteq> []" by simp
  from normalize_idempotent [OF ne] obtain result where
    r: "normalize_images [?a, ?b] = Inr result" "normalize_images result = Inr result"
    by blast
  have "normalize_images [?a, ?b] =
      Inr [normalize_one 3 3 ?a, normalize_one 3 3 ?b]"
    by (simp add: normalize_images_nonempty max_width_def max_height_def)
  with r have "result = [normalize_one 3 3 ?a, normalize_one 3 3 ?b]"
    by simp
  then have "length result = 2" "result ! 1 = ?b"
    by (simp_all add: normalize_one_fits convert_own_mode mode_def)
  with ne r show ?thesis by blast
qed

subsection \<open>Claims about the empty sequence\<close>

text \<open>
  C10 (as amended). normalize and save_gif need a non-empty list. On the empty list
  normalize fails with ValueError (the maximum of nothing), and save_gif fails with that
  same ValueError, raised by its call of normalize: it does not get as far as reading the
  first normalized frame, and it leaves the world as it was. normalize returns a result
  exactly for the non-empty lists.
\<close>

theorem empty_sequence_fails:
  "normalize_images [] = Inl ValueError
   \<and> save_gif encode [] durs p w = (Inl ValueError, w)
   \<and> ((\<exists>result. normalize_images images = Inr result) \<longleftrightarrow> images \<noteq> [])"
  using normalize_images_nonempty [of images]
  by (cases images) (auto simp: normalize_images_Nil save_gif_Nil)

text \<open>
  C10 as stated names the access to the first normalized frame (an IndexError) as the
  failure of save_gif on the empty list; the exception raised is the ValueError of
  normalize.
\<close>

theorem empty_save_gif_counterexample:
  "save_gif (\<lambda>a. []) [] [] (Path [] [''out.gif''])
     \<lparr>files = (\<lambda>p. None), writable = (\<lambda>p. True), stdout = []\<rparr>
   = (Inl ValueError, \<lparr>files = (\<lambda>p. None), writable = (\<lambda>p. True), stdout = []\<rparr>)
   \<and> fst (save_gif (\<lambda>a. []) [] [] (Path [] [''out.gif''])
          \<lparr>files = (\<lambda>p. None), writable = (\<lambda>p. True), stdout = []\<rparr>) \<noteq> Inl IndexError"
  by (simp add: save_gif_def normalize_images_def py_max_def)

subsection \<open>Claims about the driver\<close>

text \<open>What a run with valid frames and writable outputs hands to the encoder and writes.\<close>

lemma run_writes_two_files:
  "\<forall>i \<in> set all_indices. frame_decodes decode w fd i (imgs i) \<Longrightarrow>
   writable w (joinpath od ''demo.gif'') \<Longrightarrow> writable w (joinpath od ''worktree.gif'') \<Longrightarrow>
     \<exists>demo_frames wt_frames w'.
        run decode encode fd od w = (Inr (), w')
      \<and> normalize_images (map (\<lambda>i. convert (imgs i) RGBA) all_indices) = Inr demo_frames
      \<and> normalize_images (map (\<lambda>i. convert (imgs i) RGBA) WORKTREE_FRAMES) = Inr wt_frames
      \<and> files w' =
          (files w)
            (joinpath od ''demo.gif'' \<mapsto>
               encode \<lparr>frames = demo_frames, duration = durations,
                       loop = 0, optimize = True\<rparr>,
             joinpath od ''worktree.gif'' \<mapsto>
               encode \<lparr>frames = wt_frames, duration = take 5 (drop 8 durations),
                       loop = 0, optimize = True\<rparr>)
      \<and> joinpath od ''demo.gif'' \<noteq> joinpath od ''worktree.gif''
      \<and> all_indices = [1, 2, 3, 4, 5, 6, 7, 8, 9, 10, 11, 12, 13, 14, 15, 16, 17, 18]
      \<and> WORKTREE_FRAMES = [9, 10, 11, 12, 13]
      \<and> length demo_frames = 18 \<and> length wt_frames = 5
      \<and> (\<forall>f \<in> set demo_frames.
            width f = max_width (map imgs all_indices)
          \<and> height f = max_height (map imgs all_indices))
      \<and> (\<forall>f \<in> set wt_frames.
            width f = max_width (map imgs WORKTREE_FRAMES)
          \<and> height f = max_height (map imgs WORKTREE_FRAMES))"
proof -
  assume dec: "\<forall>i \<in> set all_indices. frame_decodes decode w fd i (imgs i)"
    and wr: "writable w (joinpath od ''demo.gif'')" "writable w (joinpath od ''worktree.gif'')"
  let ?all = "map (\<lambda>i. convert (imgs i) RGBA) all_indices"
  let ?wt = "map (\<lambda>i. convert (imgs i) RGBA) WORKTREE_FRAMES"
  let ?demo_frames = "map (normalize_one (max_width ?all) (max_height ?all)) ?all"
  let ?wt_frames = "map (normalize_one (max_width ?wt) (max_height ?wt)) ?wt"
  have ne: "?all \<noteq> []" "?wt \<noteq> []"
    by (simp_all add: all_indices_value WORKTREE_FRAMES_value)
  have n1: "normalize_images ?all = Inr ?demo_frames"
    using ne(1) by (rule normalize_images_nonempty)
  have n2: "normalize_images ?wt = Inr ?wt_frames"
    using ne(2) by (rule normalize_images_nonempty)
  have wd: "take 5 (drop 8 durations) = [666, 500, 833, 666, 1000]"
    by (simp add: durations_value)
  obtain w' where r: "run decode encode fd od w = (Inr (), w')"
    and f: "files w' =
          (files w)
            (joinpath od ''demo.gif'' \<mapsto>
               encode \<lparr>frames = ?demo_frames, duration = durations,
                       loop = 0, optimize = True\<rparr>,
             joinpath od ''worktree.gif'' \<mapsto>
               encode \<lparr>frames = ?wt_frames, duration = take 5 (drop 8 durations),
                       loop = 0, optimize = True\<rparr>)"
    unfolding wd using run_ok [OF dec wr, of encode] by simp
  have len: "length ?demo_frames = 18" "length ?wt_frames = 5"
    by (simp_all add: all_indices_value WORKTREE_FRAMES_value)
  have sz1: "\<forall>f \<in> set ?demo_frames.
            width f = max_width (map imgs all_indices)
          \<and> height f = max_height (map imgs all_indices)"
    by (auto simp: max_width_map_convert max_height_map_convert)
  have sz2: "\<forall>f \<in> set ?wt_frames.
            width f = max_width (map imgs WORKTREE_FRAMES)
          \<and> height f = max_height (map imgs WORKTREE_FRAMES)"
    by (auto simp: max_width_map_convert max_height_map_convert)
  have distinct: "joinpath od ''demo.gif'' \<noteq> joinpath od ''worktree.gif''"
    by simp
  show ?thesis
    using r n1 n2 f distinct all_indices_value WORKTREE_FRAMES_value len sz1 sz2
    by blast
qed

text \<open>
  C8 (as amended). With the 18 frame files present and decodable (18 valid input frames)
  and the two output paths writable, a run ends normally and changes exactly two files:
  \<^verbatim>\<open>out_dir/demo.gif\<close>, written from the 18 normalized frames of indices 1 to 18 with the
  derived durations, and \<^verbatim>\<open>out_dir/worktree.gif\<close>, written from the 5 normalized frames of
  indices 9 to 13 with their durations; the frames of each plan all have the largest width
  and the largest height among that plan's own input frames. With a GIF writer that folds
  a frame showing no difference to its predecessor into that one, the file read back has
  that width and height and holds at least one and at most 18 (5) frames, and exactly 18
  (5) when the writer finds no frame of the plan's normalized sequence to repeat its
  predecessor.
\<close>

theorem full_run_two_outputs:
  "\<forall>i \<in> set all_indices. frame_decodes decode w fd i (imgs i) \<Longrightarrow>
   writable w (joinpath od ''demo.gif'') \<Longrightarrow> writable w (joinpath od ''worktree.gif'') \<Longrightarrow>
     \<exists>demo_frames wt_frames w'.
        run decode encode fd od w = (Inr (), w')
      \<and> normalize_images (map (\<lambda>i. convert (imgs i) RGBA) all_indices) = Inr demo_frames
      \<and> normalize_images (map (\<lambda>i. convert (imgs i) RGBA) WORKTREE_FRAMES) = Inr wt_frames
      \<and> files w' =
          (files w)
            (joinpath od ''demo.gif'' \<mapsto>
               encode \<lparr>frames = demo_frames, duration = durations,
                       loop = 0, optimize = True\<rparr>,
             joinpath od ''worktree.gif'' \<mapsto>
               encode \<lparr>frames = wt_frames, duration = take 5 (drop 8 durations),
                       loop = 0, optimize = True\<rparr>)
      \<and> joinpath od ''demo.gif'' \<noteq> joinpath od ''worktree.gif''
      \<and> all_indices = [1, 2, 3, 4, 5, 6, 7, 8, 9, 10, 11, 12, 13, 14, 15, 16, 17, 18]
      \<and> WORKTREE_FRAMES = [9, 10, 11, 12, 13]
      \<and> length demo_frames = 18 \<and> length wt_frames = 5
      \<and> (\<forall>f \<in> set demo_frames.
            width f = max_width (map imgs all_indices)
          \<and> height f = max_height (map imgs all_indices))
      \<and> (\<forall>f \<in> set wt_frames.
            width f = max_width (map imgs WORKTREE_FRAMES)
          \<and> height f = max_height (map imgs WORKTREE_FRAMES))
      \<and> (writer_stores encode reader same \<longrightarrow>
            (\<exists>n. (case files w' (joinpath od ''demo.gif'') of
                     None \<Rightarrow> False
                   | Some data \<Rightarrow>
                       reader data =
                         (n, max_width (map imgs all_indices), max_height (map imgs all_indices)))
                \<and> 1 \<le> n \<and> n \<le> 18 \<and> (no_repeat same demo_frames \<longrightarrow> n = 18))
          \<and> (\<exists>m. (case files w' (joinpath od ''worktree.gif'') of
                     None \<Rightarrow> False
                   | Some data \<Rightarrow>
                       reader data =
                         (m, max_width (map imgs WORKTREE_FRAMES),
                          max_height (map imgs WORKTREE_FRAMES)))
                \<and> 1 \<le> m \<and> m \<le> 5 \<and> (no_repeat same wt_frames \<longrightarrow> m = 5)))"
proof -
  assume dec: "\<forall>i \<in> set all_indices. frame_decodes decode w fd i (imgs i)"
    and wr: "writable w (joinpath od ''demo.gif'')" "writable w (joinpath od ''worktree.gif'')"
  let ?dp = "joinpath od ''demo.gif''" and ?wp = "joinpath od ''worktree.gif''"
  from run_writes_two_files [OF dec wr, of encode]
  obtain demo_frames wt_frames w' where
    r: "run decode encode fd od w = (Inr (), w')"
    and n: "normalize_images (map (\<lambda>i. convert (imgs i) RGBA) all_indices) = Inr demo_frames"
      "normalize_images (map (\<lambda>i. convert (imgs i) RGBA) WORKTREE_FRAMES) = Inr wt_frames"
    and f: "files w' =
          (files w)
            (?dp \<mapsto> encode \<lparr>frames = demo_frames, duration = durations,
                       loop = 0, optimize = True\<rparr>,
             ?wp \<mapsto> encode \<lparr>frames = wt_frames, duration = take 5 (drop 8 durations),
                       loop = 0, optimize = True\<rparr>)"
    and distinct: "?dp \<noteq> ?wp"
    and len: "length demo_frames = 18" "length wt_frames = 5"
    and sz1: "\<forall>f \<in> set demo_frames.
            width f = max_width (map imgs all_indices)
          \<and> height f = max_height (map imgs all_indices)"
    and sz2: "\<forall>f \<in> set wt_frames.
            width f = max_width (map imgs WORKTREE_FRAMES)
          \<and> height f = max_height (map imgs WORKTREE_FRAMES)"
    by blast
  have fd: "files w' ?dp = Some (encode \<lparr>frames = demo_frames, duration = durations,
                       loop = 0, optimize = True\<rparr>)"
    and fw: "files w' ?wp = Some (encode \<lparr>frames = wt_frames,
                       duration = take 5 (drop 8 durations), loop = 0, optimize = True\<rparr>)"
    using distinct by (simp_all add: f)
  have ne: "demo_frames \<noteq> []" "wt_frames \<noteq> []"
    using len by auto
  have rd: "(\<exists>n. (case files w' ?dp of
                     None \<Rightarrow> False
                   | Some data \<Rightarrow>
                       reader data =
                         (n, max_width (map imgs all_indices), max_height (map imgs all_indices)))
                \<and> 1 \<le> n \<and> n \<le> 18 \<and> (no_repeat same demo_frames \<longrightarrow> n = 18))
          \<and> (\<exists>m. (case files w' ?wp of
                     None \<Rightarrow> False
                   | Some data \<Rightarrow>
                       reader data =
                         (m, max_width (map imgs WORKTREE_FRAMES),
                          max_height (map imgs WORKTREE_FRAMES)))
                \<and> 1 \<le> m \<and> m \<le> 5 \<and> (no_repeat same wt_frames \<longrightarrow> m = 5))"
    if ws: "writer_stores encode reader same"
    using reader_of_written [OF ws ne(1) sz1, of durations 0 True]
      reader_of_written [OF ws ne(2) sz2, of "take 5 (drop 8 durations)" 0 True]
    unfolding fd fw len by simp
  show ?thesis
    using r n f distinct all_indices_value WORKTREE_FRAMES_value len sz1 sz2 rd
    by blast
qed

theorem full_run_two_outputs_witness:
  "list_all (\<lambda>i. frame_decodes tinted_decode tinted_world default_frames_dir i
                (tinted_frame (of_int i))) all_indices
   \<and> writable tinted_world (joinpath default_out_dir ''demo.gif'')
   \<and> writable tinted_world (joinpath default_out_dir ''worktree.gif'')
   \<and> writer_stores merging_encode read_unary same_image
   \<and> fst (run tinted_decode merging_encode default_frames_dir default_out_dir tinted_world)
       = Inr ()
   \<and> map_option read_unary
        (files (snd (run tinted_decode merging_encode default_frames_dir default_out_dir
                       tinted_world))
           (joinpath default_out_dir ''demo.gif'')) = Some (18, 4, 3)
   \<and> map_option read_unary
        (files (snd (run tinted_decode merging_encode default_frames_dir default_out_dir
                       tinted_world))
           (joinpath default_out_dir ''worktree.gif'')) = Some (5, 4, 3)"
proof -
  let ?imgs = "\<lambda>i. tinted_frame (of_int i)"
  let ?dp = "joinpath default_out_dir ''demo.gif''"
  let ?wp = "joinpath default_out_dir ''worktree.gif''"
  have wr: "writable tinted_world ?dp" "writable tinted_world ?wp"
    by (simp_all add: tinted_world_def)
  have nr1: "case normalize_images (map (\<lambda>i. convert (?imgs i) RGBA) all_indices) of
               Inl e \<Rightarrow> False | Inr fs \<Rightarrow> no_repeat same_image fs"
    by code_simp
  have nr2: "case normalize_images (map (\<lambda>i. convert (?imgs i) RGBA) WORKTREE_FRAMES) of
               Inl e \<Rightarrow> False | Inr fs \<Rightarrow> no_repeat same_image fs"
    by code_simp
  have mx: "max_width (map ?imgs all_indices) = 4" "max_height (map ?imgs all_indices) = 3"
    "max_width (map ?imgs WORKTREE_FRAMES) = 4" "max_height (map ?imgs WORKTREE_FRAMES) = 3"
    by (simp_all add: max_width_def max_height_def all_indices_value WORKTREE_FRAMES_value
        tinted_frame_def)
  from full_run_two_outputs
    [OF tinted_world_decodes wr, of merging_encode read_unary same_image]
  obtain demo_frames wt_frames w' n m where
    r: "run tinted_decode merging_encode default_frames_dir default_out_dir tinted_world
          = (Inr (), w')"
    and nm: "normalize_images (map (\<lambda>i. convert (?imgs i) RGBA) all_indices) = Inr demo_frames"
      "normalize_images (map (\<lambda>i. convert (?imgs i) RGBA) WORKTREE_FRAMES) = Inr wt_frames"
    and rd: "case files w' ?dp of None \<Rightarrow> False
             | Some data \<Rightarrow> read_unary data =
                 (n, max_width (map ?imgs all_indices), max_height (map ?imgs all_indices))"
      "no_repeat same_image demo_frames \<longrightarrow> n = 18"
    and rw: "case files w' ?wp of None \<Rightarrow> False
             | Some data \<Rightarrow> read_unary data =
                 (m, max_width (map ?imgs WORKTREE_FRAMES),
                  max_height (map ?imgs WORKTREE_FRAMES))"
      "no_repeat same_image wt_frames \<longrightarrow> m = 5"
    using merging_encode_stores by blast
  have "n = 18" "m = 5"
    using nr1 nr2 nm rd(2) rw(2) by simp_all
  with rd(1) rw(1) have
    "map_option read_unary (files w' ?dp) = Some (18, 4, 3)"
    "map_option read_unary (files w' ?wp) = Some (5, 4, 3)"
    unfolding mx by (auto split: option.splits)
  with r show ?thesis
    using tinted_world_decodes wr merging_encode_stores by (simp add: list_all_iff)
qed

text \<open>
  C8 as stated promises 18 and 5 frames in the two files for any 18 valid frames. With a
  writer that folds repeated frames, as the library's does, and the example world, whose
  frames 1 to 8 and 10 to 18 are the same image, \<^verbatim>\<open>demo.gif\<close> holds 3 frames and
  \<^verbatim>\<open>worktree.gif\<close> holds 2. And the script creates no directory and catches no error of
  the write: with the same valid frames and an output directory that cannot be written,
  the run ends with the OSError of the first save and neither output file exists.
\<close>

theorem two_outputs_counterexample:
  "list_all
     (\<lambda>i. frame_decodes example_decode example_world default_frames_dir i (example_image i))
     all_indices
   \<and> writable example_world (joinpath default_out_dir ''demo.gif'')
   \<and> writable example_world (joinpath default_out_dir ''worktree.gif'')
   \<and> writer_stores merging_encode read_unary same_image
   \<and> fst (run example_decode merging_encode default_frames_dir default_out_dir example_world)
       = Inr ()
   \<and> map_option read_unary
        (files (snd (run example_decode merging_encode default_frames_dir default_out_dir
                       example_world))
           (joinpath default_out_dir ''demo.gif'')) = Some (3, 4, 3)
   \<and> map_option read_unary
        (files (snd (run example_decode merging_encode default_frames_dir default_out_dir
                       example_world))
           (joinpath default_out_dir ''worktree.gif'')) = Some (2, 4, 3)
   \<and> list_all
       (\<lambda>i. frame_decodes example_decode (example_world\<lparr>writable := (\<lambda>p. False)\<rparr>)
          default_frames_dir i (example_image i)) all_indices
   \<and> fst (run example_decode example_encode default_frames_dir default_out_dir
        (example_world\<lparr>writable := (\<lambda>p. False)\<rparr>)) = Inl OSError
   \<and> files (snd (run example_decode example_encode default_frames_dir default_out_dir
        (example_world\<lparr>writable := (\<lambda>p. False)\<rparr>)))
        (joinpath default_out_dir ''demo.gif'') = None
   \<and> files (snd (run example_decode example_encode default_frames_dir default_out_dir
        (example_world\<lparr>writable := (\<lambda>p. False)\<rparr>)))
        (joinpath default_out_dir ''worktree.gif'') = None"
proof -
  have "list_all
     (\<lambda>i. frame_decodes example_decode example_world default_frames_dir i (example_image i))
     all_indices"
    using example_world_decodes by (simp add: list_all_iff)
  moreover have "writable example_world (joinpath default_out_dir ''demo.gif'')"
    "writable example_world (joinpath default_out_dir ''worktree.gif'')"
    by (simp_all add: example_world_def)
  moreover note merging_encode_stores
  moreover have
    "fst (run example_decode merging_encode default_frames_dir default_out_dir example_world)
       = Inr ()"
    by code_simp
  moreover have "map_option read_unary
        (files (snd (run example_decode merging_encode default_frames_dir default_out_dir
                       example_world))
           (joinpath default_out_dir ''demo.gif'')) = Some (3, 4, 3)"
    by code_simp
  moreover have "map_option read_unary
        (files (snd (run example_decode merging_encode default_frames_dir default_out_dir
                       example_world))
           (joinpath default_out_dir ''worktree.gif'')) = Some (2, 4, 3)"
    by code_simp
  moreover have "list_all
     (\<lambda>i. frame_decodes example_decode (example_world\<lparr>writable := (\<lambda>p. False)\<rparr>)
        default_frames_dir i (example_image i)) all_indices"
    using example_world_decodes by (simp add: frame_decodes_def list_all_iff)
  moreover have "fst (run example_decode example_encode default_frames_dir default_out_dir
        (example_world\<lparr>writable := (\<lambda>p. False)\<rparr>)) = Inl OSError"
    by code_simp
  moreover have "files (snd (run example_decode example_encode default_frames_dir
        default_out_dir (example_world\<lparr>writable := (\<lambda>p. False)\<rparr>)))
        (joinpath default_out_dir ''demo.gif'') = None"
    by code_simp
  moreover have "files (snd (run example_decode example_encode default_frames_dir
        default_out_dir (example_world\<lparr>writable := (\<lambda>p. False)\<rparr>)))
        (joinpath default_out_dir ''worktree.gif'') = None"
    by code_simp
  ultimately show ?thesis by simp
qed

text \<open>The second half on its own: valid frames and an output directory that cannot be
  written.\<close>

theorem unwritable_output_counterexample:
  "list_all
     (\<lambda>i. frame_decodes example_decode (example_world\<lparr>writable := (\<lambda>p. False)\<rparr>)
        default_frames_dir i (example_image i)) all_indices
   \<and> fst (run example_decode example_encode default_frames_dir default_out_dir
        (example_world\<lparr>writable := (\<lambda>p. False)\<rparr>)) = Inl OSError
   \<and> files (snd (run example_decode example_encode default_frames_dir default_out_dir
        (example_world\<lparr>writable := (\<lambda>p. False)\<rparr>)))
        (joinpath default_out_dir ''demo.gif'') = None
   \<and> files (snd (run example_decode example_encode default_frames_dir default_out_dir
        (example_world\<lparr>writable := (\<lambda>p. False)\<rparr>)))
        (joinpath default_out_dir ''worktree.gif'') = None"
proof -
  have "list_all
     (\<lambda>i. frame_decodes example_decode (example_world\<lparr>writable := (\<lambda>p. False)\<rparr>)
        default_frames_dir i (example_image i)) all_indices"
    using example_world_decodes by (simp add: frame_decodes_def list_all_iff)
  moreover have "fst (run example_decode example_encode default_frames_dir default_out_dir
        (example_world\<lparr>writable := (\<lambda>p. False)\<rparr>)) = Inl OSError"
    by code_simp
  moreover have "files (snd (run example_decode example_encode default_frames_dir
        default_out_dir (example_world\<lparr>writable := (\<lambda>p. False)\<rparr>)))
        (joinpath default_out_dir ''demo.gif'') = None"
    by code_simp
  moreover have "files (snd (run example_decode example_encode default_frames_dir
        default_out_dir (example_world\<lparr>writable := (\<lambda>p. False)\<rparr>)))
        (joinpath default_out_dir ''worktree.gif'') = None"
    by code_simp
  ultimately show ?thesis by simp
qed

text \<open>
  C5 (as amended). If a required frame file is absent, the run exits with status 1 and
  leaves every file as it was (no output file is written); and when every frame before
  the absent one is present and decodable, the run ends in \<^verbatim>\<open>sys.exit(1)\<close> having printed,
  after the speed line, exactly \<open>Missing:\<close> followed by the path of that frame. With all
  18 frames present and decodable and both output paths writable, the run exits with
  status 0.
\<close>

theorem missing_frame_exit_status:
  "(k \<in> set all_indices \<and> files w (frame_path fd k) = None \<longrightarrow>
      exit_status (fst (run decode encode fd od w)) = 1
    \<and> files (snd (run decode encode fd od w)) = files w
    \<and> ((\<forall>j \<in> set all_indices. j < k \<longrightarrow> (\<exists>img. frame_decodes decode w fd j img)) \<longrightarrow>
          run decode encode fd od w =
            (Inl (SystemExit 1),
             w\<lparr>stdout := stdout w @
                  [''Speed: 3x'', ''Missing: '' @ str_path (frame_path fd k)]\<rparr>)))
   \<and> ((\<forall>i \<in> set all_indices. \<exists>img. frame_decodes decode w fd i img)
        \<and> writable w (joinpath od ''demo.gif'') \<and> writable w (joinpath od ''worktree.gif'')
      \<longrightarrow> exit_status (fst (run decode encode fd od w)) = 0)"
proof (intro conjI impI)
  assume a: "k \<in> set all_indices \<and> files w (frame_path fd k) = None"
  then show "exit_status (fst (run decode encode fd od w)) = 1"
    and "files (snd (run decode encode fd od w)) = files w"
    using run_absent [of k w fd decode encode od] by simp_all
  assume earlier: "\<forall>j \<in> set all_indices. j < k \<longrightarrow> (\<exists>img. frame_decodes decode w fd j img)"
  have split: "all_indices = [1..k - 1] @ k # [k + 1..18]"
    using a by (simp add: all_indices_split)
  have pre: "\<forall>j \<in> set [1..k - 1]. \<exists>img. frame_decodes decode w fd j img"
    using earlier a by (auto simp: all_indices_upto)
  have absent: "files w (frame_path fd k) = None"
    using a by simp
  show "run decode encode fd od w =
            (Inl (SystemExit 1),
             w\<lparr>stdout := stdout w @
                  [''Speed: 3x'', ''Missing: '' @ str_path (frame_path fd k)]\<rparr>)"
    by (rule run_first_absent [OF split pre absent])
next
  assume b: "(\<forall>i \<in> set all_indices. \<exists>img. frame_decodes decode w fd i img)
        \<and> writable w (joinpath od ''demo.gif'') \<and> writable w (joinpath od ''worktree.gif'')"
  then obtain imgs where "\<forall>i \<in> set all_indices. frame_decodes decode w fd i (imgs i)"
    by metis
  from run_ok [OF this, of od encode] b show "exit_status (fst (run decode encode fd od w)) = 0"
    by simp
qed

theorem missing_frame_exit_status_witness:
  "7 \<in> set all_indices
   \<and> files (example_world\<lparr>files := (files example_world)
                (frame_path default_frames_dir 7 := None)\<rparr>)
        (frame_path default_frames_dir 7) = None
   \<and> run example_decode example_encode default_frames_dir default_out_dir
        (example_world\<lparr>files := (files example_world)
           (frame_path default_frames_dir 7 := None)\<rparr>)
      = (Inl (SystemExit 1),
         example_world\<lparr>files := (files example_world)
              (frame_path default_frames_dir 7 := None),
            stdout := [''Speed: 3x'', ''Missing: /tmp/recomposable-frames/frame-7.png'']\<rparr>)
   \<and> exit_status (fst (run example_decode example_encode default_frames_dir default_out_dir
        (example_world\<lparr>files := (files example_world)
           (frame_path default_frames_dir 7 := None)\<rparr>))) = 1
   \<and> exit_status (fst (run example_decode example_encode default_frames_dir default_out_dir
        example_world)) = 0"
proof -
  let ?w7 = "example_world\<lparr>files := (files example_world)
                (frame_path default_frames_dir 7 := None)\<rparr>"
  have k: "7 \<in> set all_indices \<and> files ?w7 (frame_path default_frames_dir 7) = None"
    by (simp add: all_indices_value)
  have earlier: "\<forall>j \<in> set all_indices. j < 7 \<longrightarrow>
      (\<exists>img. frame_decodes example_decode ?w7 default_frames_dir j img)"
    using frame_path_example
    by (simp add: all_indices_value frame_decodes_def example_world_def example_decode_def)
  have name: "str_path (frame_path default_frames_dir 7) =
      ''/tmp/recomposable-frames/frame-7.png''"
    by (simp add: frame_path_def default_frames_dir_def str_int_def)
  have out: "stdout example_world = []"
    by (simp add: example_world_def)
  have all: "(\<forall>i \<in> set all_indices.
        \<exists>img. frame_decodes example_decode example_world default_frames_dir i img)
      \<and> writable example_world (joinpath default_out_dir ''demo.gif'')
      \<and> writable example_world (joinpath default_out_dir ''worktree.gif'')"
    using example_world_decodes by (auto simp: example_world_def)
  from missing_frame_exit_status
    [of 7 ?w7 default_frames_dir example_decode example_encode default_out_dir] k earlier
  have "run example_decode example_encode default_frames_dir default_out_dir ?w7 =
      (Inl (SystemExit 1),
       ?w7\<lparr>stdout := stdout ?w7 @
          [''Speed: 3x'', ''Missing: '' @ str_path (frame_path default_frames_dir 7)]\<rparr>)"
    and "exit_status (fst (run example_decode example_encode default_frames_dir
           default_out_dir ?w7)) = 1"
    by blast+
  moreover from missing_frame_exit_status
    [of 7 example_world default_frames_dir example_decode example_encode default_out_dir] all
  have "exit_status (fst (run example_decode example_encode default_frames_dir default_out_dir
        example_world)) = 0"
    by blast
  ultimately show ?thesis
    using k by (simp add: name out)
qed

text \<open>
  C5 as stated promises status 0 whenever all required frames are present, and the
  \<open>Missing:\<close> line whenever one is absent. With all 18 files present but frame 3 not an
  image the decoder's exception ends the run with status 1; and with frame 3 not an image
  and frame 7 absent no \<open>Missing:\<close> line is printed.
\<close>

theorem present_frames_counterexample:
  "list_all
     (\<lambda>i. path_exists
        (example_world\<lparr>files := (files example_world)
           (frame_path default_frames_dir 3 \<mapsto> [255])\<rparr>)
        (frame_path default_frames_dir i)) all_indices
   \<and> fst (run example_decode example_encode default_frames_dir default_out_dir
        (example_world\<lparr>files := (files example_world)
           (frame_path default_frames_dir 3 \<mapsto> [255])\<rparr>)) = Inl UnidentifiedImageError
   \<and> exit_status (fst (run example_decode example_encode default_frames_dir default_out_dir
        (example_world\<lparr>files := (files example_world)
           (frame_path default_frames_dir 3 \<mapsto> [255])\<rparr>))) = 1
   \<and> path_exists
        (example_world\<lparr>files := (files example_world)
           (frame_path default_frames_dir 3 \<mapsto> [255],
            frame_path default_frames_dir 7 := None)\<rparr>)
        (frame_path default_frames_dir 7) = False
   \<and> stdout (snd (run example_decode example_encode default_frames_dir default_out_dir
        (example_world\<lparr>files := (files example_world)
           (frame_path default_frames_dir 3 \<mapsto> [255],
            frame_path default_frames_dir 7 := None)\<rparr>))) = [''Speed: 3x'']"
  by code_simp

end
